theory Spec2Isabelle
  imports Complex_Main
begin

section \<open>JavaScript values used by the sources\<close>

text \<open>
  A value of TypeScript type \<open>string | undefined\<close> (or \<open>string | null\<close>) is a
  \<open>string option\<close>, \<open>None\<close> standing for the missing value.
\<close>

datatype error = TransportError | ApiCallFailed | SyntaxError | TypeError

definition truthy :: "string option \<Rightarrow> bool" where
  \<comment> \<open>JavaScript truthiness of a string-or-undefined: undefined and the empty string are falsy.\<close>
  "truthy v = (case v of None \<Rightarrow> False | Some s \<Rightarrow> s \<noteq> [])"

definition jsOr :: "string option \<Rightarrow> string option \<Rightarrow> string option" where
  \<comment> \<open>\<open>a || b\<close>\<close>
  "jsOr a b = (if truthy a then a else b)"

definition orElse :: "string option \<Rightarrow> string \<Rightarrow> string" where
  \<comment> \<open>\<open>a || b\<close> where \<open>b\<close> is a string\<close>
  "orElse a b = (case a of None \<Rightarrow> b | Some s \<Rightarrow> if s \<noteq> [] then s else b)"

definition at0 :: "'a list \<Rightarrow> 'a option" where
  \<comment> \<open>\<open>xs[0]\<close>: undefined on the empty array.\<close>
  "at0 xs = (case xs of [] \<Rightarrow> None | x # _ \<Rightarrow> Some x)"

definition includes_js :: "string list \<Rightarrow> string option \<Rightarrow> bool" where
  \<comment> \<open>\<open>xs.includes(v)\<close> on an array of strings; undefined is never an element.\<close>
  "includes_js xs v = (case v of None \<Rightarrow> False | Some s \<Rightarrow> s \<in> set xs)"

subsection \<open>Reading a property of an object literal\<close>

text \<open>
  The lookup tables of the sources are object literals, so their prototype is
  \<open>Object.prototype\<close>. Reading \<open>table[key]\<close> yields the property written in the literal
  when there is one; otherwise, for a key that names a member of \<open>Object.prototype\<close>, the
  inherited member (a built-in function, or \<open>Object.prototype\<close> itself for \<open>__proto__\<close>);
  otherwise undefined. Every inherited member is truthy, is not a string, not a number and
  not an array, and has no method \<open>includes\<close>.
\<close>

definition objectPrototypeKeys :: "string list" where
  "objectPrototypeKeys =
     [''constructor'', ''hasOwnProperty'', ''isPrototypeOf'', ''propertyIsEnumerable'',
      ''toLocaleString'', ''toString'', ''valueOf'', ''__proto__'', ''__defineGetter__'',
      ''__defineSetter__'', ''__lookupGetter__'', ''__lookupSetter__'']"

datatype 'a js_get = Own 'a | Inherited string | Undefined

definition record_get :: "(string \<times> 'a) list \<Rightarrow> string \<Rightarrow> 'a js_get" where
  "record_get literal k =
     (case map_of literal k of
        Some v \<Rightarrow> Own v
      | None \<Rightarrow> if k \<in> set objectPrototypeKeys then Inherited k else Undefined)"

definition memberName :: "string \<Rightarrow> string option" where
  \<comment> \<open>the property \<open>name\<close> of the inherited member under a key: the built-in functions are
      named after their key, except that \<open>constructor\<close> is the function \<open>Object\<close>; the object
      \<open>Object.prototype\<close> has no such property\<close>
  "memberName k =
     (if k = ''constructor'' then Some ''Object''
      else if k = ''__proto__'' then None
      else Some k)"

text \<open>
  A display name computed as \<open>table[id] || id\<close>: a string, or the inherited member found
  under \<open>id\<close>.
\<close>

datatype display = Text string | Member string

definition displayName :: "(string \<times> string) list \<Rightarrow> string \<Rightarrow> display" where
  \<comment> \<open>\<open>table[id] || id\<close>\<close>
  "displayName table ident =
     (case record_get table ident of
        Own n \<Rightarrow> if n \<noteq> [] then Text n else Text ident
      | Inherited k \<Rightarrow> Member k
      | Undefined \<Rightarrow> Text ident)"


section \<open>Selection state of the off-ramp form (OfframpFeature.tsx)\<close>

record Network =
  net_id :: string
  net_name :: string

definition assetNetworkMap :: "(string \<times> string list) list" where
  "assetNetworkMap =
    [(''ETH'', [''ethereum'', ''base'', ''optimism'', ''arbitrum'', ''polygon'']),
     (''USDC'', [''ethereum'', ''base'', ''optimism'', ''arbitrum'', ''polygon'', ''solana'',
                 ''avalanche-c-chain'', ''unichain'', ''aptos'', ''bnb-chain'']),
     (''BTC'', [''bitcoin'']),
     (''SOL'', [''solana'']),
     (''MATIC'', [''polygon'', ''ethereum'']),
     (''AVAX'', [''avalanche-c-chain'', ''ethereum'']),
     (''LINK'', [''ethereum'', ''base'', ''arbitrum'']),
     (''UNI'', [''ethereum'', ''polygon'']),
     (''DOGE'', [''dogecoin'']),
     (''SHIB'', [''ethereum'']),
     (''XRP'', [''ripple'']),
     (''LTC'', [''litecoin'']),
     (''BCH'', [''bitcoin-cash''])]"

definition assetNetworkMap_get :: "string \<Rightarrow> string list js_get" where
  \<comment> \<open>\<open>assetNetworkMap[asset]\<close>\<close>
  "assetNetworkMap_get asset = record_get assetNetworkMap asset"

text \<open>
  The component state that the selection logic reads and writes. \<open>selectedNetwork\<close> is an
  option because \<open>compatibleNetworks[0]\<close> is undefined on an empty array.
\<close>

record selection =
  selectedAsset :: string
  selectedNetwork :: "string option"
  selectedCountry :: string
  selectedSubdivision :: string
  availableNetworks :: "Network list"

definition initialSelection :: selection where
  \<comment> \<open>the \<open>useState\<close> initial values\<close>
  "initialSelection =
     \<lparr>selectedAsset = ''USDC'', selectedNetwork = Some ''base'', selectedCountry = ''US'',
      selectedSubdivision = ''CA'', availableNetworks = []\<rparr>"

text \<open>
  The effect and the handler return the state they leave behind and the error they throw,
  if any. For an asset that names a member of \<open>Object.prototype\<close> the test
  \<open>if (assetNetworkMap[asset])\<close> succeeds and the call of \<open>compatibleNetworks.includes\<close>
  throws a TypeError; state setters called before the throw have taken effect.
\<close>

definition networkRepairEffect :: "selection \<Rightarrow> selection \<times> error option" where
  \<comment> \<open>the effect "Initialize network based on selected asset"\<close>
  "networkRepairEffect s =
     (case assetNetworkMap_get (selectedAsset s) of
        Own compatibleNetworks \<Rightarrow>
          (if \<not> includes_js compatibleNetworks (selectedNetwork s)
           then s\<lparr>selectedNetwork := at0 compatibleNetworks\<rparr>
           else s, None)
      | Inherited k \<Rightarrow> (s, Some TypeError)
      | Undefined \<Rightarrow> (s, None))"

text \<open>
  \<open>handleAssetChange\<close> filters the module constant \<open>networks\<close>, a literal array sorted with
  the platform's \<open>localeCompare\<close>; the sorted array is the parameter \<open>networks\<close>. With an
  inherited member for \<open>compatibleNetworks\<close>, the filter callback throws on the first network;
  on an empty array the filter returns, \<open>setAvailableNetworks\<close> runs, and the following test
  throws.
\<close>

definition handleAssetChange :: "Network list \<Rightarrow> string \<Rightarrow> selection \<Rightarrow> selection \<times> error option" where
  "handleAssetChange networks assetCode s =
     (let s1 = s\<lparr>selectedAsset := assetCode\<rparr> in
      case assetNetworkMap_get assetCode of
        Own compatibleNetworks \<Rightarrow>
          (let filteredNetworks = filter (\<lambda>network. includes_js compatibleNetworks (Some (net_id network))) networks;
               s2 = s1\<lparr>availableNetworks := filteredNetworks\<rparr>
           in (if \<not> includes_js compatibleNetworks (selectedNetwork s)
               then s2\<lparr>selectedNetwork := at0 compatibleNetworks\<rparr>
               else s2, None))
      | Inherited k \<Rightarrow>
          (if networks = [] then s1\<lparr>availableNetworks := []\<rparr> else s1, Some TypeError)
      | Undefined \<Rightarrow> (s1, None))"

definition countryOnChange :: "string \<Rightarrow> selection \<Rightarrow> selection" where
  \<comment> \<open>the \<open>onChange\<close> handler of the country select\<close>
  "countryOnChange v s = s\<lparr>selectedCountry := v, selectedSubdivision := ''''\<rparr>"


section \<open>Catalogue shapes and their normalisation (onrampApi.ts, offrampApi.ts)\<close>

text \<open>
  Record fields carry a short prefix because the sources reuse the property names
  \<open>id\<close>, \<open>name\<close> and \<open>limits\<close> in many interfaces; the rest of each field name is the
  property name of the source. A \<open>name\<close> computed as \<open>table[id] || id\<close> has type \<open>display\<close>. The upstream shapes of the buy and of the sell module
  are declared twice in the sources with the same properties; they are modelled once.
\<close>

subsection \<open>Upstream shapes\<close>

record ApiPaymentMethodType =
  apm_id :: string

record ApiSupportedCountry =
  asc_id :: string
  asc_payment_methods :: "ApiPaymentMethodType list"
  asc_subdivisions :: "string list option"

record ApiConfigResponse =
  acr_countries :: "ApiSupportedCountry list"

record ApiPaymentMethodLimit =
  apl_id :: string
  apl_min :: string
  apl_max :: string

record ApiFiatCurrency =
  afc_id :: string
  afc_limits :: "ApiPaymentMethodLimit list"

record ApiNetwork =
  an_name :: string
  an_display_name :: string
  an_chain_id :: "int option"
  an_contract_address :: "string option"

record ApiCryptoAsset =
  aca_id :: string
  aca_symbol :: string
  aca_name :: string
  aca_networks :: "ApiNetwork list"
  aca_icon_url :: "string option"

record ApiBuyOptionsResponse =
  payment_currencies :: "ApiFiatCurrency list"
  purchase_currencies :: "ApiCryptoAsset list"

record ApiSellOptionsResponse =
  cashout_currencies :: "ApiFiatCurrency list"
  sell_currencies :: "ApiCryptoAsset list"

subsection \<open>Normalised shapes of the buy module\<close>

record PaymentMethod =
  pm_id :: string
  pm_name :: string
  pm_description :: "string option"

record Country_onramp =
  co_id :: string
  co_name :: display
  co_paymentMethods :: "PaymentMethod list"
  co_subdivisions :: "string list option"

record BuyConfigResponse =
  bc_countries :: "Country_onramp list"

record CurrencyLimit_onramp =
  cl_id :: string
  cl_min :: string
  cl_max :: string

record PaymentCurrency =
  pc_id :: string
  pc_name :: display
  pc_limits :: "CurrencyLimit_onramp list"

record Network_onramp =
  nw_id :: string
  nw_name :: string
  nw_chainId :: "int option"
  nw_contractAddress :: "string option"

record PurchaseCurrency =
  pu_id :: string
  pu_symbol :: string
  pu_name :: string
  pu_networks :: "Network_onramp list"
  pu_iconUrl :: "string option"

record BuyOptionsResponse =
  bo_paymentCurrencies :: "PaymentCurrency list"
  bo_purchaseCurrencies :: "PurchaseCurrency list"

subsection \<open>Normalised shapes of the sell module\<close>

record CashoutMethod =
  cm_id :: string
  cm_name :: string
  cm_description :: "string option"

record Country_offramp =
  cy_code :: string
  cy_name :: display
  cy_cashout_methods :: "CashoutMethod list"
  cy_supported_states :: "string list option"

record SellConfigResult =
  sc_countries :: "Country_offramp list"

record CurrencyLimit_offramp =
  lim_min :: string
  lim_max :: string

text \<open>
  \<open>limits: Record<string, CurrencyLimit>\<close> is the list of its properties, read with
  \<open>map_of\<close>.
\<close>

record CashoutMethodOption =
  cmo_id :: string
  cmo_name :: string
  cmo_limits :: "(string \<times> CurrencyLimit_offramp) list"

record FiatCurrency =
  fc_code :: string
  fc_name :: display
  fc_cashout_methods :: "CashoutMethodOption list"

record CryptoAsset =
  ca_code :: string
  ca_name :: string
  ca_networks :: "Network list"

record SellOptionsResponse =
  so_cashout_currencies :: "FiatCurrency list"
  so_sell_currencies :: "CryptoAsset list"

subsection \<open>Display-name tables\<close>

definition countryNames_onramp :: "(string \<times> string) list" where
  "countryNames_onramp =
    [(''US'', ''United States''), (''CA'', ''Canada''), (''MX'', ''Mexico''),
     (''GB'', ''United Kingdom''), (''DE'', ''Germany''), (''FR'', ''France''),
     (''ES'', ''Spain''), (''IT'', ''Italy''), (''NL'', ''Netherlands''),
     (''CH'', ''Switzerland''), (''SE'', ''Sweden''), (''NO'', ''Norway''),
     (''DK'', ''Denmark''), (''FI'', ''Finland''), (''IE'', ''Ireland''),
     (''AT'', ''Austria''), (''BE'', ''Belgium''), (''PT'', ''Portugal''),
     (''GR'', ''Greece''), (''PL'', ''Poland''), (''CZ'', ''Czech Republic''),
     (''SK'', ''Slovakia''), (''HU'', ''Hungary''), (''RO'', ''Romania''),
     (''BG'', ''Bulgaria''), (''HR'', ''Croatia''), (''SI'', ''Slovenia''),
     (''LT'', ''Lithuania''), (''LV'', ''Latvia''), (''EE'', ''Estonia''),
     (''CY'', ''Cyprus''), (''MT'', ''Malta''), (''LU'', ''Luxembourg''),
     (''IS'', ''Iceland''), (''LI'', ''Liechtenstein''), (''MC'', ''Monaco''),
     (''AU'', ''Australia''), (''NZ'', ''New Zealand''), (''JP'', ''Japan''),
     (''SG'', ''Singapore''), (''HK'', ''Hong Kong''), (''KR'', ''South Korea''),
     (''TW'', ''Taiwan''), (''TH'', ''Thailand''), (''MY'', ''Malaysia''),
     (''PH'', ''Philippines''), (''ID'', ''Indonesia''), (''VN'', ''Vietnam''),
     (''IN'', ''India''), (''CN'', ''China''), (''AE'', ''United Arab Emirates''),
     (''SA'', ''Saudi Arabia''), (''QA'', ''Qatar''), (''BH'', ''Bahrain''),
     (''KW'', ''Kuwait''), (''OM'', ''Oman''), (''IL'', ''Israel''),
     (''ZA'', ''South Africa''), (''EG'', ''Egypt''), (''NG'', ''Nigeria''),
     (''KE'', ''Kenya''), (''BR'', ''Brazil''), (''AR'', ''Argentina''), (''CL'', ''Chile''),
     (''CO'', ''Colombia''), (''PE'', ''Peru''), (''UY'', ''Uruguay''),
     (''CR'', ''Costa Rica''), (''PA'', ''Panama''), (''TR'', ''Turkey''),
     (''RU'', ''Russia''), (''UA'', ''Ukraine''), (''BY'', ''Belarus''),
     (''KZ'', ''Kazakhstan'')]"

definition paymentMethodNames_onramp :: "(string \<times> string \<times> string) list" where
  "paymentMethodNames_onramp =
    [(''CARD'', (''Debit/Credit Card'', ''Available in 90+ countries'')),
     (''ACH_BANK_ACCOUNT'', (''Bank Transfer (ACH)'', ''US only, 1-3 business days'')),
     (''APPLE_PAY'', (''Apple Pay'', ''Available on iOS devices'')),
     (''PAYPAL'', (''PayPal'', ''Available in select countries'')),
     (''RTP'', (''Real-Time Payments (RTP)'', ''US only, instant'')),
     (''FIAT_WALLET'', (''Coinbase Fiat Wallet'', ''Instant transfer to your Coinbase account'')),
     (''CRYPTO_ACCOUNT'', (''Crypto Account'', ''Coinbase crypto account'')),
     (''GUEST_CHECKOUT_CARD'', (''Guest Checkout Card'', ''Card payment without account'')),
     (''GUEST_CHECKOUT_APPLE_PAY'', (''Guest Checkout Apple Pay'', ''Apple Pay without account'')),
     (''UNSPECIFIED'', (''Unspecified'', ''Payment method not specified''))]"

definition currencyNames_onramp :: "(string \<times> string) list" where
  "currencyNames_onramp =
    [(''USD'', ''US Dollar''), (''EUR'', ''Euro''), (''GBP'', ''British Pound''),
     (''CAD'', ''Canadian Dollar''), (''AUD'', ''Australian Dollar''),
     (''JPY'', ''Japanese Yen''), (''CHF'', ''Swiss Franc''),
     (''NZD'', ''New Zealand Dollar''), (''SGD'', ''Singapore Dollar''),
     (''HKD'', ''Hong Kong Dollar''), (''MXN'', ''Mexican Peso''),
     (''BRL'', ''Brazilian Real'')]"

definition paymentMethodNames_offramp :: "(string \<times> string \<times> string) list" where
  "paymentMethodNames_offramp =
    [(''ACH_BANK_ACCOUNT'', (''Bank Transfer (ACH)'', ''US only, 1-3 business days'')),
     (''PAYPAL'', (''PayPal'', ''Available in select countries'')),
     (''FIAT_WALLET'', (''Coinbase Fiat Wallet'', ''Instant transfer to your Coinbase account'')),
     (''RTP'', (''Real-Time Payments (RTP)'', ''US only, instant'')),
     (''APPLE_PAY'', (''Apple Pay'', ''Available in select countries'')),
     (''CARD'', (''Debit/Credit Card'', ''Available in select countries'')),
     (''CRYPTO_ACCOUNT'', (''Crypto Account'', ''Coinbase crypto account'')),
     (''GUEST_CHECKOUT_CARD'', (''Guest Checkout Card'', ''Card payment without account'')),
     (''GUEST_CHECKOUT_APPLE_PAY'', (''Guest Checkout Apple Pay'', ''Apple Pay without account'')),
     (''UNSPECIFIED'', (''Unspecified'', ''Payment method not specified''))]"

definition currencyNames_offramp :: "(string \<times> string) list" where
  "currencyNames_offramp =
    [(''USD'', ''US Dollar''), (''EUR'', ''Euro''), (''GBP'', ''British Pound''),
     (''CAD'', ''Canadian Dollar''), (''AUD'', ''Australian Dollar''),
     (''JPY'', ''Japanese Yen''), (''CHF'', ''Swiss Franc''),
     (''NZD'', ''New Zealand Dollar''), (''SGD'', ''Singapore Dollar''),
     (''HKD'', ''Hong Kong Dollar''), (''MXN'', ''Mexican Peso''),
     (''BRL'', ''Brazilian Real'')]"

definition countryNames_offramp :: "(string \<times> string) list" where
  "countryNames_offramp =
    [(''US'', ''United States''), (''GB'', ''United Kingdom''), (''CA'', ''Canada''),
     (''DE'', ''Germany''), (''FR'', ''France''), (''ES'', ''Spain''), (''IT'', ''Italy''),
     (''AU'', ''Australia''), (''JP'', ''Japan''), (''NL'', ''Netherlands''),
     (''CH'', ''Switzerland''), (''SE'', ''Sweden''), (''NO'', ''Norway''),
     (''DK'', ''Denmark''), (''FI'', ''Finland''), (''IE'', ''Ireland''),
     (''AT'', ''Austria''), (''BE'', ''Belgium''), (''PT'', ''Portugal''),
     (''GR'', ''Greece''), (''NZ'', ''New Zealand''), (''SG'', ''Singapore''),
     (''HK'', ''Hong Kong''), (''AE'', ''United Arab Emirates''), (''BR'', ''Brazil''),
     (''MX'', ''Mexico'')]"

subsection \<open>Transforms\<close>

definition paymentMethodName :: "(string \<times> string \<times> string) list \<Rightarrow> string \<Rightarrow> string" where
  \<comment> \<open>\<open>table[id]?.name || id\<close>\<close>
  "paymentMethodName table ident =
     (case record_get table ident of
        Own (n, d) \<Rightarrow> if n \<noteq> [] then n else ident
      | Inherited k \<Rightarrow> orElse (memberName k) ident
      | Undefined \<Rightarrow> ident)"

definition paymentMethodDescription :: "(string \<times> string \<times> string) list \<Rightarrow> string \<Rightarrow> string option" where
  \<comment> \<open>\<open>table[id]?.description\<close>\<close>
  "paymentMethodDescription table ident =
     (case record_get table ident of
        Own (n, d) \<Rightarrow> Some d
      | Inherited k \<Rightarrow> None
      | Undefined \<Rightarrow> None)"

definition transformBuyConfigResponse :: "ApiConfigResponse \<Rightarrow> BuyConfigResponse" where
  "transformBuyConfigResponse apiResponse =
     \<lparr>bc_countries = map (\<lambda>country.
        \<lparr>co_id = asc_id country,
         co_name = displayName countryNames_onramp (asc_id country),
         co_paymentMethods = map (\<lambda>pm.
            \<lparr>pm_id = apm_id pm,
             pm_name = paymentMethodName paymentMethodNames_onramp (apm_id pm),
             pm_description = paymentMethodDescription paymentMethodNames_onramp (apm_id pm)\<rparr>)
           (asc_payment_methods country),
         co_subdivisions = asc_subdivisions country\<rparr>)
       (acr_countries apiResponse)\<rparr>"

definition transformBuyOptionsResponse :: "ApiBuyOptionsResponse \<Rightarrow> BuyOptionsResponse" where
  "transformBuyOptionsResponse apiResponse =
     \<lparr>bo_paymentCurrencies = map (\<lambda>currency.
        \<lparr>pc_id = afc_id currency,
         pc_name = displayName currencyNames_onramp (afc_id currency),
         pc_limits = map (\<lambda>limit.
            \<lparr>cl_id = apl_id limit, cl_min = apl_min limit, cl_max = apl_max limit\<rparr>)
           (afc_limits currency)\<rparr>)
       (payment_currencies apiResponse),
      bo_purchaseCurrencies = map (\<lambda>asset.
        \<lparr>pu_id = aca_id asset,
         pu_symbol = aca_symbol asset,
         pu_name = aca_name asset,
         pu_networks = map (\<lambda>network.
            \<lparr>nw_id = an_name network,
             nw_name = an_display_name network,
             nw_chainId = an_chain_id network,
             nw_contractAddress = an_contract_address network\<rparr>)
           (aca_networks asset),
         pu_iconUrl = aca_icon_url asset\<rparr>)
       (purchase_currencies apiResponse)\<rparr>"

definition transformSellConfigResponse :: "ApiConfigResponse \<Rightarrow> SellConfigResult" where
  "transformSellConfigResponse apiResponse =
     \<lparr>sc_countries = map (\<lambda>country.
        \<lparr>cy_code = asc_id country,
         cy_name = displayName countryNames_offramp (asc_id country),
         cy_cashout_methods = map (\<lambda>pm.
            \<lparr>cm_id = apm_id pm,
             cm_name = paymentMethodName paymentMethodNames_offramp (apm_id pm),
             cm_description = paymentMethodDescription paymentMethodNames_offramp (apm_id pm)\<rparr>)
           (asc_payment_methods country),
         cy_supported_states = asc_subdivisions country\<rparr>)
       (acr_countries apiResponse)\<rparr>"

definition transformSellOptionsResponse :: "ApiSellOptionsResponse \<Rightarrow> SellOptionsResponse" where
  "transformSellOptionsResponse apiResponse =
     \<lparr>so_cashout_currencies = map (\<lambda>currency.
        \<lparr>fc_code = afc_id currency,
         fc_name = displayName currencyNames_offramp (afc_id currency),
         fc_cashout_methods = map (\<lambda>limit.
            \<lparr>cmo_id = apl_id limit,
             cmo_name = paymentMethodName paymentMethodNames_offramp (apl_id limit),
             cmo_limits = [(afc_id currency, \<lparr>lim_min = apl_min limit, lim_max = apl_max limit\<rparr>)]\<rparr>)
           (afc_limits currency)\<rparr>)
       (cashout_currencies apiResponse),
      so_sell_currencies = map (\<lambda>asset.
        \<lparr>ca_code = aca_symbol asset,
         ca_name = aca_name asset,
         ca_networks = map (\<lambda>network.
            \<lparr>net_id = an_name network, net_name = an_display_name network\<rparr>)
           (aca_networks asset)\<rparr>)
       (sell_currencies apiResponse)\<rparr>"

section \<open>Catalogue fetchers of the client (onrampApi.ts, offrampApi.ts)\<close>

subsection \<open>Static fallback datasets\<close>

definition buyConfigFallback :: BuyConfigResponse where
  "buyConfigFallback =
    \<lparr>bc_countries =
      [\<lparr>co_id = ''US'', co_name = Text ''United States'',
        co_paymentMethods =
          [\<lparr>pm_id = ''CARD'', pm_name = ''Debit/Credit Card'', pm_description = Some ''Available in 90+ countries''\<rparr>,
           \<lparr>pm_id = ''ACH_BANK_ACCOUNT'', pm_name = ''Bank Transfer (ACH)'', pm_description = Some ''US only, 1-3 business days''\<rparr>,
           \<lparr>pm_id = ''APPLE_PAY'', pm_name = ''Apple Pay'', pm_description = Some ''Available on iOS devices''\<rparr>,
           \<lparr>pm_id = ''PAYPAL'', pm_name = ''PayPal'', pm_description = Some ''Available in select countries''\<rparr>],
        co_subdivisions = Some
           [''AL'', ''AK'', ''AZ'', ''AR'', ''CA'', ''CO'', ''CT'', ''DE'', ''FL'', ''GA'', ''HI'',
            ''ID'', ''IL'', ''IN'', ''IA'', ''KS'', ''KY'', ''LA'', ''ME'', ''MD'', ''MA'', ''MI'',
            ''MN'', ''MS'', ''MO'', ''MT'', ''NE'', ''NV'', ''NH'', ''NJ'', ''NM'', ''NY'', ''NC'',
            ''ND'', ''OH'', ''OK'', ''OR'', ''PA'', ''RI'', ''SC'', ''SD'', ''TN'', ''TX'', ''UT'',
            ''VT'', ''VA'', ''WA'', ''WV'', ''WI'', ''WY'', ''DC'']\<rparr>,
       \<lparr>co_id = ''GB'', co_name = Text ''United Kingdom'',
        co_paymentMethods =
          [\<lparr>pm_id = ''CARD'', pm_name = ''Debit/Credit Card'', pm_description = Some ''Available in 90+ countries''\<rparr>,
           \<lparr>pm_id = ''PAYPAL'', pm_name = ''PayPal'', pm_description = Some ''Available in select countries''\<rparr>],
        co_subdivisions = None\<rparr>,
       \<lparr>co_id = ''CA'', co_name = Text ''Canada'',
        co_paymentMethods =
          [\<lparr>pm_id = ''CARD'', pm_name = ''Debit/Credit Card'', pm_description = Some ''Available in 90+ countries''\<rparr>],
        co_subdivisions = None\<rparr>,
       \<lparr>co_id = ''DE'', co_name = Text ''Germany'',
        co_paymentMethods =
          [\<lparr>pm_id = ''CARD'', pm_name = ''Debit/Credit Card'', pm_description = Some ''Available in 90+ countries''\<rparr>],
        co_subdivisions = None\<rparr>,
       \<lparr>co_id = ''FR'', co_name = Text ''France'',
        co_paymentMethods =
          [\<lparr>pm_id = ''CARD'', pm_name = ''Debit/Credit Card'', pm_description = Some ''Available in 90+ countries''\<rparr>],
        co_subdivisions = None\<rparr>,
       \<lparr>co_id = ''AU'', co_name = Text ''Australia'',
        co_paymentMethods =
          [\<lparr>pm_id = ''CARD'', pm_name = ''Debit/Credit Card'', pm_description = Some ''Available in 90+ countries''\<rparr>],
        co_subdivisions = None\<rparr>]\<rparr>"

definition sellConfigFallback :: SellConfigResult where
  "sellConfigFallback =
    \<lparr>sc_countries =
      [\<lparr>cy_code = ''US'', cy_name = Text ''United States'',
        cy_cashout_methods =
          [\<lparr>cm_id = ''ACH_BANK_ACCOUNT'', cm_name = ''Bank Transfer (ACH)'', cm_description = Some ''US only, 1-3 business days''\<rparr>,
           \<lparr>cm_id = ''PAYPAL'', cm_name = ''PayPal'', cm_description = Some ''Available in select countries''\<rparr>,
           \<lparr>cm_id = ''FIAT_WALLET'', cm_name = ''Coinbase Fiat Wallet'', cm_description = Some ''Instant transfer to your Coinbase account''\<rparr>,
           \<lparr>cm_id = ''RTP'', cm_name = ''Real-Time Payments (RTP)'', cm_description = Some ''US only, instant''\<rparr>],
        cy_supported_states = Some
           [''AL'', ''AK'', ''AZ'', ''AR'', ''CA'', ''CO'', ''CT'', ''DE'', ''FL'', ''GA'', ''HI'',
            ''ID'', ''IL'', ''IN'', ''IA'', ''KS'', ''KY'', ''LA'', ''ME'', ''MD'', ''MA'', ''MI'',
            ''MN'', ''MS'', ''MO'', ''MT'', ''NE'', ''NV'', ''NH'', ''NJ'', ''NM'', ''NY'', ''NC'',
            ''ND'', ''OH'', ''OK'', ''OR'', ''PA'', ''RI'', ''SC'', ''SD'', ''TN'', ''TX'', ''UT'',
            ''VT'', ''VA'', ''WA'', ''WV'', ''WI'', ''WY'', ''DC'']\<rparr>,
       \<lparr>cy_code = ''GB'', cy_name = Text ''United Kingdom'',
        cy_cashout_methods =
          [\<lparr>cm_id = ''SEPA_BANK_ACCOUNT'', cm_name = ''SEPA Bank Transfer'', cm_description = Some ''1-3 business days''\<rparr>,
           \<lparr>cm_id = ''PAYPAL'', cm_name = ''PayPal'', cm_description = Some ''Available in select countries''\<rparr>,
           \<lparr>cm_id = ''FIAT_WALLET'', cm_name = ''Coinbase Fiat Wallet'', cm_description = Some ''Instant transfer to your Coinbase account''\<rparr>],
        cy_supported_states = None\<rparr>,
       \<lparr>cy_code = ''CA'', cy_name = Text ''Canada'',
        cy_cashout_methods =
          [\<lparr>cm_id = ''EFT_BANK_ACCOUNT'', cm_name = ''EFT Bank Transfer'', cm_description = Some ''1-3 business days''\<rparr>,
           \<lparr>cm_id = ''PAYPAL'', cm_name = ''PayPal'', cm_description = Some ''Available in select countries''\<rparr>,
           \<lparr>cm_id = ''FIAT_WALLET'', cm_name = ''Coinbase Fiat Wallet'', cm_description = Some ''Instant transfer to your Coinbase account''\<rparr>],
        cy_supported_states = Some
           [''AB'', ''BC'', ''MB'', ''NB'', ''NL'', ''NS'', ''NT'', ''NU'', ''ON'', ''PE'', ''QC'',
            ''SK'', ''YT'']\<rparr>,
       \<lparr>cy_code = ''DE'', cy_name = Text ''Germany'',
        cy_cashout_methods =
          [\<lparr>cm_id = ''SEPA_BANK_ACCOUNT'', cm_name = ''SEPA Bank Transfer'', cm_description = Some ''1-3 business days''\<rparr>,
           \<lparr>cm_id = ''PAYPAL'', cm_name = ''PayPal'', cm_description = Some ''Available in select countries''\<rparr>,
           \<lparr>cm_id = ''FIAT_WALLET'', cm_name = ''Coinbase Fiat Wallet'', cm_description = Some ''Instant transfer to your Coinbase account''\<rparr>],
        cy_supported_states = None\<rparr>,
       \<lparr>cy_code = ''FR'', cy_name = Text ''France'',
        cy_cashout_methods =
          [\<lparr>cm_id = ''SEPA_BANK_ACCOUNT'', cm_name = ''SEPA Bank Transfer'', cm_description = Some ''1-3 business days''\<rparr>,
           \<lparr>cm_id = ''PAYPAL'', cm_name = ''PayPal'', cm_description = Some ''Available in select countries''\<rparr>,
           \<lparr>cm_id = ''FIAT_WALLET'', cm_name = ''Coinbase Fiat Wallet'', cm_description = Some ''Instant transfer to your Coinbase account''\<rparr>],
        cy_supported_states = None\<rparr>,
       \<lparr>cy_code = ''ES'', cy_name = Text ''Spain'',
        cy_cashout_methods =
          [\<lparr>cm_id = ''SEPA_BANK_ACCOUNT'', cm_name = ''SEPA Bank Transfer'', cm_description = Some ''1-3 business days''\<rparr>,
           \<lparr>cm_id = ''PAYPAL'', cm_name = ''PayPal'', cm_description = Some ''Available in select countries''\<rparr>,
           \<lparr>cm_id = ''FIAT_WALLET'', cm_name = ''Coinbase Fiat Wallet'', cm_description = Some ''Instant transfer to your Coinbase account''\<rparr>],
        cy_supported_states = None\<rparr>,
       \<lparr>cy_code = ''IT'', cy_name = Text ''Italy'',
        cy_cashout_methods =
          [\<lparr>cm_id = ''SEPA_BANK_ACCOUNT'', cm_name = ''SEPA Bank Transfer'', cm_description = Some ''1-3 business days''\<rparr>,
           \<lparr>cm_id = ''PAYPAL'', cm_name = ''PayPal'', cm_description = Some ''Available in select countries''\<rparr>,
           \<lparr>cm_id = ''FIAT_WALLET'', cm_name = ''Coinbase Fiat Wallet'', cm_description = Some ''Instant transfer to your Coinbase account''\<rparr>],
        cy_supported_states = None\<rparr>,
       \<lparr>cy_code = ''AU'', cy_name = Text ''Australia'',
        cy_cashout_methods =
          [\<lparr>cm_id = ''PAYPAL'', cm_name = ''PayPal'', cm_description = Some ''Available in select countries''\<rparr>,
           \<lparr>cm_id = ''FIAT_WALLET'', cm_name = ''Coinbase Fiat Wallet'', cm_description = Some ''Instant transfer to your Coinbase account''\<rparr>],
        cy_supported_states = None\<rparr>]\<rparr>"

definition buyOptionsFallback :: BuyOptionsResponse where
  "buyOptionsFallback =
    \<lparr>bo_paymentCurrencies =
      [\<lparr>pc_id = ''USD'', pc_name = Text ''US Dollar'',
        pc_limits =
          [\<lparr>cl_id = ''CARD'', cl_min = ''10.00'', cl_max = ''1000.00''\<rparr>,
           \<lparr>cl_id = ''ACH_BANK_ACCOUNT'', cl_min = ''10.00'', cl_max = ''25000.00''\<rparr>,
           \<lparr>cl_id = ''APPLE_PAY'', cl_min = ''10.00'', cl_max = ''1000.00''\<rparr>,
           \<lparr>cl_id = ''PAYPAL'', cl_min = ''10.00'', cl_max = ''1000.00''\<rparr>]\<rparr>,
       \<lparr>pc_id = ''EUR'', pc_name = Text ''Euro'',
        pc_limits =
          [\<lparr>cl_id = ''CARD'', cl_min = ''10.00'', cl_max = ''1000.00''\<rparr>,
           \<lparr>cl_id = ''SEPA'', cl_min = ''10.00'', cl_max = ''25000.00''\<rparr>]\<rparr>,
       \<lparr>pc_id = ''GBP'', pc_name = Text ''British Pound'',
        pc_limits =
          [\<lparr>cl_id = ''CARD'', cl_min = ''10.00'', cl_max = ''1000.00''\<rparr>,
           \<lparr>cl_id = ''PAYPAL'', cl_min = ''10.00'', cl_max = ''1000.00''\<rparr>]\<rparr>],
     bo_purchaseCurrencies =
      [\<lparr>pu_id = ''ETH'', pu_symbol = ''ETH'', pu_name = ''Ethereum'',
        pu_networks =
          [\<lparr>nw_id = ''ethereum'', nw_name = ''Ethereum'', nw_chainId = Some 1, nw_contractAddress = Some ''''\<rparr>,
           \<lparr>nw_id = ''optimism'', nw_name = ''Optimism'', nw_chainId = Some 10, nw_contractAddress = Some ''''\<rparr>,
           \<lparr>nw_id = ''arbitrum'', nw_name = ''Arbitrum'', nw_chainId = Some 42161, nw_contractAddress = Some ''''\<rparr>,
           \<lparr>nw_id = ''base'', nw_name = ''Base'', nw_chainId = Some 8453, nw_contractAddress = Some ''''\<rparr>],
        pu_iconUrl = Some ''''\<rparr>,
       \<lparr>pu_id = ''USDC'', pu_symbol = ''USDC'', pu_name = ''USD Coin'',
        pu_networks =
          [\<lparr>nw_id = ''ethereum'', nw_name = ''Ethereum'', nw_chainId = Some 1, nw_contractAddress = Some ''0xa0b86991c6218b36c1d19d4a2e9eb0ce3606eb48''\<rparr>,
           \<lparr>nw_id = ''optimism'', nw_name = ''Optimism'', nw_chainId = Some 10, nw_contractAddress = Some ''0x7f5c764cbc14f9669b88837ca1490cca17c31607''\<rparr>,
           \<lparr>nw_id = ''arbitrum'', nw_name = ''Arbitrum'', nw_chainId = Some 42161, nw_contractAddress = Some ''0xff970a61a04b1ca14834a43f5de4533ebddb5cc8''\<rparr>,
           \<lparr>nw_id = ''base'', nw_name = ''Base'', nw_chainId = Some 8453, nw_contractAddress = Some ''0x833589fcd6edb6e08f4c7c32d4f71b54bda02913''\<rparr>,
           \<lparr>nw_id = ''polygon'', nw_name = ''Polygon'', nw_chainId = Some 137, nw_contractAddress = Some ''0x2791bca1f2de4661ed88a30c99a7a9449aa84174''\<rparr>,
           \<lparr>nw_id = ''solana'', nw_name = ''Solana'', nw_chainId = Some 0, nw_contractAddress = Some ''EPjFWdd5AufqSSqeM2qN1xzybapC8G4wEGGkZwyTDt1v''\<rparr>],
        pu_iconUrl = Some ''''\<rparr>,
       \<lparr>pu_id = ''BTC'', pu_symbol = ''BTC'', pu_name = ''Bitcoin'',
        pu_networks =
          [\<lparr>nw_id = ''bitcoin'', nw_name = ''Bitcoin'', nw_chainId = Some 0, nw_contractAddress = Some ''''\<rparr>],
        pu_iconUrl = Some ''''\<rparr>,
       \<lparr>pu_id = ''SOL'', pu_symbol = ''SOL'', pu_name = ''Solana'',
        pu_networks =
          [\<lparr>nw_id = ''solana'', nw_name = ''Solana'', nw_chainId = Some 0, nw_contractAddress = Some ''''\<rparr>],
        pu_iconUrl = Some ''''\<rparr>,
       \<lparr>pu_id = ''MATIC'', pu_symbol = ''MATIC'', pu_name = ''Polygon'',
        pu_networks =
          [\<lparr>nw_id = ''ethereum'', nw_name = ''Ethereum'', nw_chainId = Some 1, nw_contractAddress = Some ''0x7d1afa7b718fb893db30a3abc0cfc608aacfebb0''\<rparr>,
           \<lparr>nw_id = ''polygon'', nw_name = ''Polygon'', nw_chainId = Some 137, nw_contractAddress = Some ''''\<rparr>],
        pu_iconUrl = Some ''''\<rparr>]\<rparr>"

definition sellOptionsFallback :: SellOptionsResponse where
  "sellOptionsFallback =
    \<lparr>so_cashout_currencies =
      [\<lparr>fc_code = ''USD'', fc_name = Text ''US Dollar'',
        fc_cashout_methods =
          [\<lparr>cmo_id = ''ACH_BANK_ACCOUNT'', cmo_name = ''Bank Transfer (ACH)'', cmo_limits = [(''USD'', \<lparr>lim_min = ''10'', lim_max = ''25000''\<rparr>)]\<rparr>,
           \<lparr>cmo_id = ''PAYPAL'', cmo_name = ''PayPal'', cmo_limits = [(''USD'', \<lparr>lim_min = ''10'', lim_max = ''5000''\<rparr>)]\<rparr>,
           \<lparr>cmo_id = ''FIAT_WALLET'', cmo_name = ''Coinbase Fiat Wallet'', cmo_limits = [(''USD'', \<lparr>lim_min = ''1'', lim_max = ''50000''\<rparr>)]\<rparr>,
           \<lparr>cmo_id = ''RTP'', cmo_name = ''Real-Time Payments (RTP)'', cmo_limits = [(''USD'', \<lparr>lim_min = ''10'', lim_max = ''5000''\<rparr>)]\<rparr>]\<rparr>,
       \<lparr>fc_code = ''EUR'', fc_name = Text ''Euro'',
        fc_cashout_methods =
          [\<lparr>cmo_id = ''SEPA_BANK_ACCOUNT'', cmo_name = ''SEPA Bank Transfer'', cmo_limits = [(''EUR'', \<lparr>lim_min = ''10'', lim_max = ''25000''\<rparr>)]\<rparr>,
           \<lparr>cmo_id = ''PAYPAL'', cmo_name = ''PayPal'', cmo_limits = [(''EUR'', \<lparr>lim_min = ''10'', lim_max = ''5000''\<rparr>)]\<rparr>,
           \<lparr>cmo_id = ''FIAT_WALLET'', cmo_name = ''Coinbase Fiat Wallet'', cmo_limits = [(''EUR'', \<lparr>lim_min = ''1'', lim_max = ''50000''\<rparr>)]\<rparr>]\<rparr>,
       \<lparr>fc_code = ''GBP'', fc_name = Text ''British Pound'',
        fc_cashout_methods =
          [\<lparr>cmo_id = ''SEPA_BANK_ACCOUNT'', cmo_name = ''SEPA Bank Transfer'', cmo_limits = [(''GBP'', \<lparr>lim_min = ''10'', lim_max = ''25000''\<rparr>)]\<rparr>,
           \<lparr>cmo_id = ''PAYPAL'', cmo_name = ''PayPal'', cmo_limits = [(''GBP'', \<lparr>lim_min = ''10'', lim_max = ''5000''\<rparr>)]\<rparr>,
           \<lparr>cmo_id = ''FIAT_WALLET'', cmo_name = ''Coinbase Fiat Wallet'', cmo_limits = [(''GBP'', \<lparr>lim_min = ''1'', lim_max = ''50000''\<rparr>)]\<rparr>]\<rparr>,
       \<lparr>fc_code = ''CAD'', fc_name = Text ''Canadian Dollar'',
        fc_cashout_methods =
          [\<lparr>cmo_id = ''EFT_BANK_ACCOUNT'', cmo_name = ''EFT Bank Transfer'', cmo_limits = [(''CAD'', \<lparr>lim_min = ''10'', lim_max = ''25000''\<rparr>)]\<rparr>,
           \<lparr>cmo_id = ''PAYPAL'', cmo_name = ''PayPal'', cmo_limits = [(''CAD'', \<lparr>lim_min = ''10'', lim_max = ''5000''\<rparr>)]\<rparr>,
           \<lparr>cmo_id = ''FIAT_WALLET'', cmo_name = ''Coinbase Fiat Wallet'', cmo_limits = [(''CAD'', \<lparr>lim_min = ''1'', lim_max = ''50000''\<rparr>)]\<rparr>]\<rparr>,
       \<lparr>fc_code = ''AUD'', fc_name = Text ''Australian Dollar'',
        fc_cashout_methods =
          [\<lparr>cmo_id = ''PAYID'', cmo_name = ''PayID'', cmo_limits = [(''AUD'', \<lparr>lim_min = ''10'', lim_max = ''25000''\<rparr>)]\<rparr>,
           \<lparr>cmo_id = ''PAYPAL'', cmo_name = ''PayPal'', cmo_limits = [(''AUD'', \<lparr>lim_min = ''10'', lim_max = ''5000''\<rparr>)]\<rparr>,
           \<lparr>cmo_id = ''FIAT_WALLET'', cmo_name = ''Coinbase Fiat Wallet'', cmo_limits = [(''AUD'', \<lparr>lim_min = ''1'', lim_max = ''50000''\<rparr>)]\<rparr>]\<rparr>],
     so_sell_currencies =
      [\<lparr>ca_code = ''BTC'', ca_name = ''Bitcoin'',
        ca_networks =
          [\<lparr>net_id = ''bitcoin'', net_name = ''Bitcoin''\<rparr>]\<rparr>,
       \<lparr>ca_code = ''ETH'', ca_name = ''Ethereum'',
        ca_networks =
          [\<lparr>net_id = ''ethereum'', net_name = ''Ethereum''\<rparr>,
           \<lparr>net_id = ''base'', net_name = ''Base''\<rparr>,
           \<lparr>net_id = ''optimism'', net_name = ''Optimism''\<rparr>,
           \<lparr>net_id = ''arbitrum'', net_name = ''Arbitrum''\<rparr>]\<rparr>,
       \<lparr>ca_code = ''USDC'', ca_name = ''USD Coin'',
        ca_networks =
          [\<lparr>net_id = ''ethereum'', net_name = ''Ethereum''\<rparr>,
           \<lparr>net_id = ''base'', net_name = ''Base''\<rparr>,
           \<lparr>net_id = ''optimism'', net_name = ''Optimism''\<rparr>,
           \<lparr>net_id = ''polygon'', net_name = ''Polygon''\<rparr>,
           \<lparr>net_id = ''arbitrum'', net_name = ''Arbitrum''\<rparr>,
           \<lparr>net_id = ''solana'', net_name = ''Solana''\<rparr>,
           \<lparr>net_id = ''avalanche-c-chain'', net_name = ''Avalanche''\<rparr>,
           \<lparr>net_id = ''unichain'', net_name = ''Unichain''\<rparr>,
           \<lparr>net_id = ''aptos'', net_name = ''Aptos''\<rparr>,
           \<lparr>net_id = ''bnb-chain'', net_name = ''BNB Chain''\<rparr>]\<rparr>,
       \<lparr>ca_code = ''SOL'', ca_name = ''Solana'',
        ca_networks =
          [\<lparr>net_id = ''solana'', net_name = ''Solana''\<rparr>]\<rparr>,
       \<lparr>ca_code = ''MATIC'', ca_name = ''Polygon'',
        ca_networks =
          [\<lparr>net_id = ''ethereum'', net_name = ''Ethereum''\<rparr>,
           \<lparr>net_id = ''polygon'', net_name = ''Polygon''\<rparr>]\<rparr>,
       \<lparr>ca_code = ''AVAX'', ca_name = ''Avalanche'',
        ca_networks =
          [\<lparr>net_id = ''ethereum'', net_name = ''Ethereum''\<rparr>,
           \<lparr>net_id = ''avalanche-c-chain'', net_name = ''Avalanche''\<rparr>]\<rparr>,
       \<lparr>ca_code = ''LINK'', ca_name = ''Chainlink'',
        ca_networks =
          [\<lparr>net_id = ''ethereum'', net_name = ''Ethereum''\<rparr>,
           \<lparr>net_id = ''base'', net_name = ''Base''\<rparr>,
           \<lparr>net_id = ''arbitrum'', net_name = ''Arbitrum''\<rparr>]\<rparr>,
       \<lparr>ca_code = ''UNI'', ca_name = ''Uniswap'',
        ca_networks =
          [\<lparr>net_id = ''ethereum'', net_name = ''Ethereum''\<rparr>,
           \<lparr>net_id = ''polygon'', net_name = ''Polygon''\<rparr>]\<rparr>,
       \<lparr>ca_code = ''DOGE'', ca_name = ''Dogecoin'',
        ca_networks =
          [\<lparr>net_id = ''dogecoin'', net_name = ''Dogecoin''\<rparr>]\<rparr>,
       \<lparr>ca_code = ''SHIB'', ca_name = ''Shiba Inu'',
        ca_networks =
          [\<lparr>net_id = ''ethereum'', net_name = ''Ethereum''\<rparr>]\<rparr>,
       \<lparr>ca_code = ''XRP'', ca_name = ''XRP'',
        ca_networks =
          [\<lparr>net_id = ''ripple'', net_name = ''XRP Ledger''\<rparr>]\<rparr>,
       \<lparr>ca_code = ''LTC'', ca_name = ''Litecoin'',
        ca_networks =
          [\<lparr>net_id = ''litecoin'', net_name = ''Litecoin''\<rparr>]\<rparr>,
       \<lparr>ca_code = ''BCH'', ca_name = ''Bitcoin Cash'',
        ca_networks =
          [\<lparr>net_id = ''bitcoin-cash'', net_name = ''Bitcoin Cash''\<rparr>]\<rparr>]\<rparr>"

subsection \<open>Outcome of the request to the local API route\<close>

text \<open>
  What \<open>await fetch(url)\<close> followed by \<open>response.ok\<close> and \<open>await response.json()\<close> can
  yield inside the \<open>try\<close> block of a fetcher: the request rejects, the response is not
  OK (with its status), the body does not parse, the body parses to a value without the
  arrays that the transform maps over (the transform then throws a TypeError), or the
  body parses to a value of the declared type.
\<close>

datatype 'a api_result = FetchRejects | NotOk nat | BodyNotJson | WrongShape | OkJson 'a

definition responseData :: "'a api_result \<Rightarrow> error + 'a" where
  "responseData res =
     (case res of
        FetchRejects \<Rightarrow> Inl TransportError
      | NotOk st \<Rightarrow> Inl ApiCallFailed
      | BodyNotJson \<Rightarrow> Inl SyntaxError
      | WrongShape \<Rightarrow> Inl TypeError
      | OkJson apiData \<Rightarrow> Inr apiData)"

definition isFailure :: "'a api_result \<Rightarrow> bool" where
  "isFailure res = (case res of OkJson apiData \<Rightarrow> False | _ \<Rightarrow> True)"

subsection \<open>Buy module: module-level cache\<close>

text \<open>
  \<open>buyConfigCache\<close> and \<open>lastConfigFetch\<close> are plain variables. \<open>buyOptionsCache\<close> and
  \<open>lastOptionsFetch\<close> are object literals indexed by the cache key: the model keeps
  the properties assigned so far and, for \<open>buyOptionsCache\<close>, its prototype, because the
  assignment \<open>buyOptionsCache['__proto__'] = data\<close> creates no property but makes \<open>data\<close>
  the prototype of the cache (\<open>None\<close> stands for the initial \<open>Object.prototype\<close>). The
  assignment \<open>lastOptionsFetch['__proto__'] = now\<close> of a number has no effect.
\<close>

record onramp_cache =
  buyConfigCache :: "BuyConfigResponse option"
  buyOptionsCache :: "string \<Rightarrow> BuyOptionsResponse option"
  buyOptionsCache_proto :: "BuyOptionsResponse option"
  lastConfigFetch :: int
  lastOptionsFetch :: "string \<Rightarrow> int option"

definition initialCache :: onramp_cache where
  "initialCache =
     \<lparr>buyConfigCache = None, buyOptionsCache = (\<lambda>k. None), buyOptionsCache_proto = None,
      lastConfigFetch = 0, lastOptionsFetch = (\<lambda>k. None)\<rparr>"

definition CACHE_EXPIRY :: int where
  "CACHE_EXPIRY = 1000 * 60 * 15"

text \<open>
  What reading \<open>buyOptionsCache[cacheKey]\<close> can yield: a stored response, or a value
  inherited along the prototype chain, namely a member of \<open>Object.prototype\<close> or one of the
  two arrays of a response that was stored under \<open>__proto__\<close>. All of them are truthy.
\<close>

datatype options_value =
    Data BuyOptionsResponse
  | InheritedMember string
  | InheritedPaymentCurrencies "PaymentCurrency list"
  | InheritedPurchaseCurrencies "PurchaseCurrency list"

definition storedOptions :: "onramp_cache \<Rightarrow> string \<Rightarrow> BuyOptionsResponse option" where
  \<comment> \<open>the response stored under a key by an assignment, if any\<close>
  "storedOptions m k = (if k = ''__proto__'' then buyOptionsCache_proto m else buyOptionsCache m k)"

definition buyOptionsCache_get :: "onramp_cache \<Rightarrow> string \<Rightarrow> options_value option" where
  \<comment> \<open>\<open>buyOptionsCache[cacheKey]\<close>, \<open>None\<close> for undefined\<close>
  "buyOptionsCache_get m k =
     (case storedOptions m k of
        Some d \<Rightarrow> Some (Data d)
      | None \<Rightarrow>
          (case buyOptionsCache_proto m of
             Some p \<Rightarrow>
               if k = ''paymentCurrencies'' then Some (InheritedPaymentCurrencies (bo_paymentCurrencies p))
               else if k = ''purchaseCurrencies'' then Some (InheritedPurchaseCurrencies (bo_purchaseCurrencies p))
               else if k \<in> set objectPrototypeKeys then Some (InheritedMember k)
               else None
           | None \<Rightarrow> if k \<in> set objectPrototypeKeys then Some (InheritedMember k) else None))"

definition buyOptionsCache_set :: "string \<Rightarrow> BuyOptionsResponse \<Rightarrow> onramp_cache \<Rightarrow> onramp_cache" where
  \<comment> \<open>\<open>buyOptionsCache[cacheKey] = transformedData\<close>\<close>
  "buyOptionsCache_set k d m =
     (if k = ''__proto__'' then m\<lparr>buyOptionsCache_proto := Some d\<rparr>
      else m\<lparr>buyOptionsCache := (buyOptionsCache m)(k := Some d)\<rparr>)"

definition lastOptionsFetch_get :: "onramp_cache \<Rightarrow> string \<Rightarrow> int option" where
  \<comment> \<open>\<open>lastOptionsFetch[cacheKey] || 0\<close> as a number; \<open>None\<close> when it is an inherited member,
      with which the subtraction gives NaN\<close>
  "lastOptionsFetch_get m k =
     (if k = ''__proto__'' then None
      else case lastOptionsFetch m k of
             Some t \<Rightarrow> Some t
           | None \<Rightarrow> if k \<in> set objectPrototypeKeys then None else Some 0)"

definition lastOptionsFetch_set :: "string \<Rightarrow> int \<Rightarrow> onramp_cache \<Rightarrow> onramp_cache" where
  \<comment> \<open>\<open>lastOptionsFetch[cacheKey] = now\<close>\<close>
  "lastOptionsFetch_set k now m =
     (if k = ''__proto__'' then m
      else m\<lparr>lastOptionsFetch := (lastOptionsFetch m)(k := Some now)\<rparr>)"

definition validConfigCache :: "int \<Rightarrow> onramp_cache \<Rightarrow> BuyConfigResponse option" where
  \<comment> \<open>\<open>buyConfigCache && now - lastConfigFetch < CACHE_EXPIRY\<close>\<close>
  "validConfigCache now m =
     (case buyConfigCache m of
        None \<Rightarrow> None
      | Some cached \<Rightarrow> if now - lastConfigFetch m < CACHE_EXPIRY then Some cached else None)"

text \<open>
  Each fetcher is an \<open>async\<close> function whose whole body is a \<open>try\<close> block. The block is
  modelled with result \<open>error + _\<close>; the fetcher adds the \<open>catch\<close> handler and returns the
  outcome of the promise (\<open>Inl\<close> for a rejection) and the module state.
\<close>

definition fetchBuyConfig_try ::
  "int \<Rightarrow> ApiConfigResponse api_result \<Rightarrow> onramp_cache \<Rightarrow> error + (BuyConfigResponse \<times> onramp_cache)" where
  "fetchBuyConfig_try now res m =
     (case validConfigCache now m of
        Some cached \<Rightarrow> Inr (cached, m)
      | None \<Rightarrow>
          (case responseData res of
             Inl e \<Rightarrow> Inl e
           | Inr apiData \<Rightarrow>
               (let transformedData = transformBuyConfigResponse apiData
                in Inr (transformedData,
                        m\<lparr>buyConfigCache := Some transformedData, lastConfigFetch := now\<rparr>))))"

definition fetchBuyConfig ::
  "int \<Rightarrow> ApiConfigResponse api_result \<Rightarrow> onramp_cache \<Rightarrow> (error + BuyConfigResponse) \<times> onramp_cache" where
  "fetchBuyConfig now res m =
     (case fetchBuyConfig_try now res m of
        Inr (v, m') \<Rightarrow> (Inr v, m')
      | Inl e \<Rightarrow>
          (case buyConfigCache m of
             Some cached \<Rightarrow> (Inr cached, m)
           | None \<Rightarrow> (Inr buyConfigFallback, m)))"

definition cacheKey :: "string \<Rightarrow> string option \<Rightarrow> string" where
  \<comment> \<open>the template \<open>${country}${subdivision ? `-${subdivision}` : ''}\<close>\<close>
  "cacheKey country subdivision =
     (case subdivision of
        None \<Rightarrow> country
      | Some sd \<Rightarrow> if sd \<noteq> [] then country @ ''-'' @ sd else country)"

definition validOptionsCache :: "int \<Rightarrow> string \<Rightarrow> onramp_cache \<Rightarrow> options_value option" where
  \<comment> \<open>\<open>buyOptionsCache[cacheKey] && now - (lastOptionsFetch[cacheKey] || 0) < CACHE_EXPIRY\<close>\<close>
  "validOptionsCache now k m =
     (case buyOptionsCache_get m k of
        None \<Rightarrow> None
      | Some cached \<Rightarrow>
          (case lastOptionsFetch_get m k of
             None \<Rightarrow> None
           | Some t \<Rightarrow> if now - t < CACHE_EXPIRY then Some cached else None))"

definition fetchBuyOptions_try ::
  "int \<Rightarrow> string \<Rightarrow> string option \<Rightarrow> ApiBuyOptionsResponse api_result \<Rightarrow> onramp_cache
   \<Rightarrow> error + (options_value \<times> onramp_cache)" where
  "fetchBuyOptions_try now country subdivision res m =
     (let k = cacheKey country subdivision in
      case validOptionsCache now k m of
        Some cached \<Rightarrow> Inr (cached, m)
      | None \<Rightarrow>
          (case responseData res of
             Inl e \<Rightarrow> Inl e
           | Inr apiData \<Rightarrow>
               (let transformedData = transformBuyOptionsResponse apiData
                in Inr (Data transformedData,
                        lastOptionsFetch_set k now (buyOptionsCache_set k transformedData m)))))"

definition fetchBuyOptions ::
  "int \<Rightarrow> string \<Rightarrow> string option \<Rightarrow> ApiBuyOptionsResponse api_result \<Rightarrow> onramp_cache
   \<Rightarrow> (error + options_value) \<times> onramp_cache" where
  "fetchBuyOptions now country subdivision res m =
     (case fetchBuyOptions_try now country subdivision res m of
        Inr (v, m') \<Rightarrow> (Inr v, m')
      | Inl e \<Rightarrow>
          (case buyOptionsCache_get m (cacheKey country subdivision) of
             Some cached \<Rightarrow> (Inr cached, m)
           | None \<Rightarrow> (Inr (Data buyOptionsFallback), m)))"

subsection \<open>Sell module: no cache\<close>

definition fetchSellConfig :: "ApiConfigResponse api_result \<Rightarrow> error + SellConfigResult" where
  "fetchSellConfig res =
     (case responseData res of
        Inr apiData \<Rightarrow> Inr (transformSellConfigResponse apiData)
      | Inl e \<Rightarrow> Inr sellConfigFallback)"

definition fetchSellOptions ::
  "string \<Rightarrow> string option \<Rightarrow> ApiSellOptionsResponse api_result \<Rightarrow> error + SellOptionsResponse" where
  \<comment> \<open>\<open>country\<close> and \<open>subdivision\<close> only select the URL whose outcome is \<open>res\<close>\<close>
  "fetchSellOptions country subdivision res =
     (case responseData res of
        Inr apiData \<Rightarrow> Inr (transformSellOptionsResponse apiData)
      | Inl e \<Rightarrow> Inr sellOptionsFallback)"

subsection \<open>Sequences of calls to the buy module\<close>

datatype call =
    ConfigCall int "ApiConfigResponse api_result"
  | OptionsCall int string "string option" "ApiBuyOptionsResponse api_result"

fun step :: "call \<Rightarrow> onramp_cache \<Rightarrow> onramp_cache" where
  "step (ConfigCall now res) m = snd (fetchBuyConfig now res m)"
| "step (OptionsCall now country subdivision res) m = snd (fetchBuyOptions now country subdivision res m)"

fun run :: "call list \<Rightarrow> onramp_cache \<Rightarrow> onramp_cache" where
  "run [] m = m"
| "run (c # cs) m = run cs (step c m)"

text \<open>
  The value that a call obtains from upstream: none when the call is served from a
  valid cache entry or when its request fails.
\<close>

fun fetchedConfig :: "call \<Rightarrow> onramp_cache \<Rightarrow> BuyConfigResponse option" where
  "fetchedConfig (ConfigCall now res) m =
     (case validConfigCache now m of
        Some cached \<Rightarrow> None
      | None \<Rightarrow> (case res of OkJson apiData \<Rightarrow> Some (transformBuyConfigResponse apiData) | _ \<Rightarrow> None))"
| "fetchedConfig (OptionsCall now country subdivision res) m = None"

fun fetchedOptions :: "string \<Rightarrow> call \<Rightarrow> onramp_cache \<Rightarrow> BuyOptionsResponse option" where
  "fetchedOptions k (OptionsCall now country subdivision res) m =
     (if cacheKey country subdivision \<noteq> k then None
      else case validOptionsCache now k m of
        Some cached \<Rightarrow> None
      | None \<Rightarrow> (case res of OkJson apiData \<Rightarrow> Some (transformBuyOptionsResponse apiData) | _ \<Rightarrow> None))"
| "fetchedOptions k (ConfigCall now res) m = None"

text \<open>The value of the last successful upstream fetch in a sequence of calls, if any.\<close>

fun lastFetchedConfig :: "call list \<Rightarrow> onramp_cache \<Rightarrow> BuyConfigResponse option" where
  "lastFetchedConfig [] m = None"
| "lastFetchedConfig (c # cs) m =
     (case lastFetchedConfig cs (step c m) of
        Some v \<Rightarrow> Some v
      | None \<Rightarrow> fetchedConfig c m)"

fun lastFetchedOptions :: "string \<Rightarrow> call list \<Rightarrow> onramp_cache \<Rightarrow> BuyOptionsResponse option" where
  "lastFetchedOptions k [] m = None"
| "lastFetchedOptions k (c # cs) m =
     (case lastFetchedOptions k cs (step c m) of
        Some v \<Rightarrow> Some v
      | None \<Rightarrow> fetchedOptions k c m)"

section \<open>API routes of the server (buy-config, sell-config, sell-options, sell-quote)\<close>

subsection \<open>JSON values and responses\<close>

datatype json = JNull | JBool bool | JNum rat | JStr string | JArr "json list" | JObj "(string \<times> json) list"

fun json_truthy :: "json \<Rightarrow> bool" where
  "json_truthy JNull = False"
| "json_truthy (JBool b) = b"
| "json_truthy (JNum n) = (n \<noteq> 0)"
| "json_truthy (JStr s) = (s \<noteq> [])"
| "json_truthy (JArr xs) = True"
| "json_truthy (JObj ps) = True"

fun getProp :: "json \<Rightarrow> string \<Rightarrow> error + json option" where
  \<comment> \<open>\<open>v.k\<close> for the property names \<open>message\<close> and \<open>error\<close>: a TypeError on null, undefined
      (\<open>None\<close>) on a value without the property\<close>
  "getProp JNull k = Inl TypeError"
| "getProp (JObj ps) k = Inr (map_of ps k)"
| "getProp v k = Inr None"

definition obj :: "(string \<times> json option) list \<Rightarrow> json" where
  \<comment> \<open>an object literal as serialised by \<open>NextResponse.json\<close>: undefined properties are left out\<close>
  "obj ps = JObj (List.map_filter (\<lambda>(k, v). map_option (Pair k) v) ps)"

record NextResponse =
  resp_status :: nat
  resp_body :: json

definition json_response :: "nat \<Rightarrow> json \<Rightarrow> NextResponse" where
  \<comment> \<open>\<open>NextResponse.json(body, { status })\<close>\<close>
  "json_response st b = \<lparr>resp_status = st, resp_body = b\<rparr>"

definition validInitStatus :: "nat \<Rightarrow> bool" where
  \<comment> \<open>the statuses that \<open>NextResponse.json(body, { status })\<close> accepts: it throws a RangeError
      outside 200..599 and a TypeError for a null-body status\<close>
  "validInitStatus st = (200 \<le> st \<and> st \<le> 599 \<and> st \<notin> {204, 205, 304})"

definition error_response :: "nat \<Rightarrow> string \<Rightarrow> NextResponse" where
  \<comment> \<open>\<open>NextResponse.json({ error }, { status })\<close>\<close>
  "error_response st msg = json_response st (obj [(''error'', Some (JStr msg))])"

subsection \<open>Environment, token generation and the upstream call\<close>

record env =
  CDP_API_KEY :: "string option"
  CDP_API_KEY_NAME :: "string option"
  CDP_API_SECRET :: "string option"
  CDP_API_KEY_PRIVATE_KEY :: "string option"
  NODE_ENV :: "string option"

record fetch_request =
  req_url :: string
  req_method :: string
  req_headers :: "(string \<times> string) list"
  req_body :: "(string \<times> json) list option"

text \<open>
  The calls a route makes to its collaborators are recorded in order: the arguments of
  \<open>generateJWT(keyName, keySecret, apiPath, method)\<close> and the request given to \<open>fetch\<close>.
  \<open>generateJWT\<close> (sessionTokenApi.ts), the upstream service behind \<open>fetch\<close> and
  \<open>JSON.parse\<close> are parameters: a token or \<open>None\<close> when token generation throws; a
  rejection, or a status with the text of the body (\<open>None\<close> when reading it rejects);
  the parsed value or \<open>None\<close> when parsing throws.
\<close>

datatype event = GenerateJWT string string string string | Fetch fetch_request

datatype upstream_result = FetchRejected | Responded nat "string option"

type_synonym jwt_generator = "string \<Rightarrow> string \<Rightarrow> string \<Rightarrow> string \<Rightarrow> string option"
type_synonym fetcher = "fetch_request \<Rightarrow> upstream_result"
type_synonym json_parser = "string \<Rightarrow> json option"

definition nonEmpty :: "string option \<Rightarrow> string option" where
  \<comment> \<open>the string behind a truthy value\<close>
  "nonEmpty v = (case v of None \<Rightarrow> None | Some s \<Rightarrow> if s \<noteq> [] then Some s else None)"

definition credentials :: "env \<Rightarrow> (string \<times> string) option" where
  \<comment> \<open>\<open>keyName\<close> and \<open>keySecret\<close>, or \<open>None\<close> when \<open>!keyName || !keySecret\<close>\<close>
  "credentials e =
     (let keyName = jsOr (CDP_API_KEY e) (CDP_API_KEY_NAME e);
          keySecret = jsOr (CDP_API_SECRET e) (CDP_API_KEY_PRIVATE_KEY e)
      in case nonEmpty keyName of
           None \<Rightarrow> None
         | Some n \<Rightarrow> (case nonEmpty keySecret of None \<Rightarrow> None | Some s \<Rightarrow> Some (n, s)))"

definition is_ok :: "nat \<Rightarrow> bool" where
  \<comment> \<open>\<open>response.ok\<close>\<close>
  "is_ok st = (200 \<le> st \<and> st \<le> 299)"

subsection \<open>Query strings\<close>

definition hexDigit :: "nat \<Rightarrow> char" where
  "hexDigit n = ''0123456789ABCDEF'' ! n"

definition isFormSafe :: "char \<Rightarrow> bool" where
  "isFormSafe c =
     (let n = (of_char c :: nat)
      in (48 \<le> n \<and> n \<le> 57) \<or> (65 \<le> n \<and> n \<le> 90) \<or> (97 \<le> n \<and> n \<le> 122) \<or> c \<in> set ''*-._'')"

definition formEncode :: "string \<Rightarrow> string" where
  \<comment> \<open>the application/x-www-form-urlencoded serialisation of the UTF-8 bytes of a string\<close>
  "formEncode s =
     concat (map (\<lambda>c. if c = CHR '' '' then ''+''
                      else if isFormSafe c then [c]
                      else [CHR ''%'', hexDigit ((of_char c :: nat) div 16), hexDigit ((of_char c :: nat) mod 16)]) s)"

fun joinAmp :: "string list \<Rightarrow> string" where
  "joinAmp [] = []"
| "joinAmp [x] = x"
| "joinAmp (x # y # ys) = x @ ''&'' @ joinAmp (y # ys)"

definition toQueryString :: "(string \<times> string) list \<Rightarrow> string" where
  \<comment> \<open>\<open>URLSearchParams.toString()\<close>\<close>
  "toQueryString ps = joinAmp (map (\<lambda>(k, v). formEncode k @ ''='' @ formEncode v) ps)"

subsection \<open>The part shared by the three GET routes\<close>

text \<open>
  From "Generate JWT for authentication" to the end, buy-config, sell-config and
  sell-options run the same statements; they differ in the upstream URL, the path given
  to the token and the error label \<open>failed\<close> (used both for a non-OK upstream status and by
  the outer \<open>catch\<close>). The success log reads a property of the parsed value, which throws
  on \<open>null\<close>. A throw inside the outer \<open>try\<close> (the request rejects, reading the body
  rejects, \<open>NextResponse.json\<close> refuses the upstream status, the log throws) ends in the
  outer \<open>catch\<close>, which answers 500 with \<open>failed\<close>.
\<close>

definition forwardedResponse :: "string \<Rightarrow> json_parser \<Rightarrow> upstream_result \<Rightarrow> NextResponse" where
  \<comment> \<open>what a GET route answers, from \<open>await fetch(...)\<close> on\<close>
  "forwardedResponse failed parse res =
     (case res of
        FetchRejected \<Rightarrow> error_response 500 failed
      | Responded st None \<Rightarrow> error_response 500 failed
      | Responded st (Some responseText) \<Rightarrow>
          if \<not> is_ok st
          then (if validInitStatus st
                then json_response st
                       (obj [(''error'', Some (JStr failed)), (''details'', Some (JStr responseText))])
                else error_response 500 failed)
          else (case parse responseText of
                  None \<Rightarrow> error_response 500 ''Invalid response from server''
                | Some JNull \<Rightarrow> error_response 500 failed
                | Some data \<Rightarrow> json_response 200 data))"

definition upstreamGET ::
  "string \<Rightarrow> string \<Rightarrow> string \<Rightarrow> string \<Rightarrow> string \<Rightarrow> jwt_generator \<Rightarrow> fetcher \<Rightarrow> json_parser
   \<Rightarrow> NextResponse \<times> event list" where
  "upstreamGET failed cdpApiUrl apiPath keyName keySecret generateJWT fetch parse =
     (case generateJWT keyName keySecret apiPath ''GET'' of
        None \<Rightarrow>
          (error_response 500 ''Authentication failed'',
           [GenerateJWT keyName keySecret apiPath ''GET''])
      | Some jwtToken \<Rightarrow>
          (let request = \<lparr>req_url = cdpApiUrl, req_method = ''GET'',
                          req_headers = [(''Accept'', ''application/json''),
                                         (''Authorization'', ''Bearer '' @ jwtToken)],
                          req_body = None\<rparr>
           in (forwardedResponse failed parse (fetch request),
               [GenerateJWT keyName keySecret apiPath ''GET'', Fetch request])))"

definition GET_buy_config :: "env \<Rightarrow> jwt_generator \<Rightarrow> fetcher \<Rightarrow> json_parser \<Rightarrow> NextResponse \<times> event list" where
  "GET_buy_config e generateJWT fetch parse =
     (case credentials e of
        None \<Rightarrow> (error_response 500 ''Server configuration error'', [])
      | Some (keyName, keySecret) \<Rightarrow>
          upstreamGET ''Failed to fetch buy config''
            ''https://api.developer.coinbase.com/onramp/v1/buy/config''
            ''/onramp/v1/buy/config'' keyName keySecret generateJWT fetch parse)"

definition GET_sell_config :: "env \<Rightarrow> jwt_generator \<Rightarrow> fetcher \<Rightarrow> json_parser \<Rightarrow> NextResponse \<times> event list" where
  "GET_sell_config e generateJWT fetch parse =
     (case credentials e of
        None \<Rightarrow> (error_response 500 ''Server configuration error'', [])
      | Some (keyName, keySecret) \<Rightarrow>
          upstreamGET ''Failed to fetch sell config''
            ''https://api.developer.coinbase.com/onramp/v1/sell/config''
            ''/onramp/v1/sell/config'' keyName keySecret generateJWT fetch parse)"

text \<open>
  sell-options reads the query parameters \<open>country\<close>, \<open>subdivision\<close> and \<open>networks\<close> of the
  incoming request (\<open>None\<close> when missing) before it looks at the credentials.
\<close>

definition GET_sell_options ::
  "env \<Rightarrow> jwt_generator \<Rightarrow> fetcher \<Rightarrow> json_parser \<Rightarrow> string option \<Rightarrow> string option \<Rightarrow> string option
   \<Rightarrow> NextResponse \<times> event list" where
  "GET_sell_options e generateJWT fetch parse country subdivision networks =
     (case nonEmpty country of
        None \<Rightarrow> (error_response 400 ''Missing required parameter: country'', [])
      | Some c \<Rightarrow>
          (case credentials e of
             None \<Rightarrow> (error_response 500 ''Server configuration error'', [])
           | Some (keyName, keySecret) \<Rightarrow>
               (let queryParams =
                      [(''country'', c)]
                      @ (case nonEmpty subdivision of None \<Rightarrow> [] | Some sd \<Rightarrow> [(''subdivision'', sd)])
                      @ (case nonEmpty networks of None \<Rightarrow> [] | Some ns \<Rightarrow> [(''networks'', ns)])
                in upstreamGET ''Failed to fetch sell options''
                     (''https://api.developer.coinbase.com/onramp/v1/sell/options?''
                        @ toQueryString queryParams)
                     ''/onramp/v1/sell/options'' keyName keySecret generateJWT fetch parse)))"

subsection \<open>The sell-quote route\<close>

text \<open>
  The incoming request: its parsed JSON body (\<open>None\<close> when \<open>request.json()\<close> rejects),
  the two headers the route reads, and \<open>request.ip\<close>. A header value is a byte string,
  each byte one code unit of the JavaScript string.
\<close>

record quote_request =
  rq_body :: "json option"
  rq_x_forwarded_for :: "string option"
  rq_x_real_ip :: "string option"
  rq_ip :: "string option"

definition bodyField :: "json \<Rightarrow> string \<Rightarrow> json option" where
  \<comment> \<open>a property destructured from a body that is not \<open>null\<close>: undefined (\<open>None\<close>) when the
      body has no such property or is not an object\<close>
  "bodyField b k = (case b of JObj ps \<Rightarrow> map_of ps k | _ \<Rightarrow> None)"

definition truthyField :: "json \<Rightarrow> string \<Rightarrow> json option" where
  \<comment> \<open>the property when it is truthy\<close>
  "truthyField b k =
     (case bodyField b k of None \<Rightarrow> None | Some v \<Rightarrow> if json_truthy v then Some v else None)"

definition isSpace :: "char \<Rightarrow> bool" where
  \<comment> \<open>the white space and line terminators of JavaScript among the code units up to 0xFF\<close>
  "isSpace c = (c \<in> set [CHR '' '', CHR 0x09, CHR 0x0A, CHR 0x0B, CHR 0x0C, CHR 0x0D, CHR 0xA0])"

definition trim :: "string \<Rightarrow> string" where
  "trim s = rev (dropWhile isSpace (rev (dropWhile isSpace s)))"

definition firstOfSplit :: "string \<Rightarrow> string" where
  \<comment> \<open>\<open>s.split(',')[0]\<close>\<close>
  "firstOfSplit s = takeWhile (\<lambda>c. c \<noteq> CHR '','') s"

definition startsWith :: "string \<Rightarrow> string \<Rightarrow> bool" where
  "startsWith s p = (take (length p) s = p)"

definition isPrivateIp :: "string option \<Rightarrow> bool" where
  "isPrivateIp clientIp =
     (case nonEmpty clientIp of
        None \<Rightarrow> True
      | Some ip \<Rightarrow>
          ip = ''127.0.0.1'' \<or> ip = ''localhost'' \<or> ip = ''::1''
          \<or> (\<exists>p \<in> set [''10.'', ''192.168.'', ''172.16.'', ''172.17.'', ''172.18.'', ''172.19.'',
                          ''172.20.'', ''172.21.'', ''172.22.'', ''172.23.'', ''172.24.'', ''172.25.'',
                          ''172.26.'', ''172.27.'', ''172.28.'', ''172.29.'', ''172.30.'', ''172.31.''].
                startsWith ip p))"

definition clientIpOf :: "quote_request \<Rightarrow> string" where
  "clientIpOf r =
     (let clientIp = jsOr (jsOr (map_option (trim \<circ> firstOfSplit) (rq_x_forwarded_for r))
                                (rq_x_real_ip r))
                          (rq_ip r)
      in if isPrivateIp clientIp then ''192.0.2.1''
         else (case clientIp of Some ip \<Rightarrow> ip | None \<Rightarrow> ''192.0.2.1''))"

definition errorDetailsOf :: "json_parser \<Rightarrow> string \<Rightarrow> json" where
  \<comment> \<open>\<open>errorData.message || errorData.error || responseText\<close>, or \<open>responseText\<close> when parsing or
      the property access throws\<close>
  "errorDetailsOf parse responseText =
     (case parse responseText of
        None \<Rightarrow> JStr responseText
      | Some errorData \<Rightarrow>
          (case getProp errorData ''message'' of
             Inl e \<Rightarrow> JStr responseText
           | Inr message \<Rightarrow>
               (case message of
                  Some m \<Rightarrow>
                    if json_truthy m then m
                    else (case getProp errorData ''error'' of
                            Inr (Some er) \<Rightarrow> if json_truthy er then er else JStr responseText
                          | _ \<Rightarrow> JStr responseText)
                | None \<Rightarrow>
                    (case getProp errorData ''error'' of
                       Inr (Some er) \<Rightarrow> if json_truthy er then er else JStr responseText
                     | _ \<Rightarrow> JStr responseText))))"

definition requiredNames :: "string list" where
  "requiredNames =
     [''sellCurrency'', ''sellAmount'', ''cashoutCurrency'', ''paymentMethod'', ''country'',
      ''sourceAddress'', ''redirectUrl'', ''partnerUserId'']"

definition requiredFields :: "json \<Rightarrow> (string \<times> json) list option" where
  \<comment> \<open>the eight required fields with their property names, in the order of \<open>requestBody\<close>,
      or \<open>None\<close> when one of them is falsy\<close>
  "requiredFields b = those (map (\<lambda>k. map_option (Pair k) (truthyField b k)) requiredNames)"

definition quoteRejection :: "env \<Rightarrow> json_parser \<Rightarrow> nat \<Rightarrow> string \<Rightarrow> NextResponse" where
  \<comment> \<open>the two \<open>NextResponse.json\<close> of the branch \<open>if (!response.ok)\<close> of sell-quote\<close>
  "quoteRejection e parse st responseText =
     (let errorDetails = errorDetailsOf parse responseText
      in if NODE_ENV e = Some ''development''
         then json_response st
                (obj [(''error'', Some (JStr ''Failed to generate sell quote'')),
                      (''details'', Some errorDetails),
                      (''status'', Some (JNum (of_nat st))),
                      (''hint'', if st = 401
                                 then Some (JStr ''Check your CDP API credentials in .env.local'')
                                 else None)])
         else json_response st
                (obj [(''error'', Some (JStr ''Failed to generate sell quote'')),
                      (''details'', if st = 401
                                    then Some (JStr ''Authentication failed - check API credentials'')
                                    else None)]))"

definition quoteResponse :: "env \<Rightarrow> json_parser \<Rightarrow> upstream_result \<Rightarrow> NextResponse" where
  \<comment> \<open>what sell-quote answers, from \<open>await fetch(...)\<close> on\<close>
  "quoteResponse e parse res =
     (case res of
        FetchRejected \<Rightarrow> error_response 500 ''Failed to generate sell quote''
      | Responded st None \<Rightarrow> error_response 500 ''Failed to generate sell quote''
      | Responded st (Some responseText) \<Rightarrow>
          if \<not> is_ok st
          then (if validInitStatus st then quoteRejection e parse st responseText
                else error_response 500 ''Failed to generate sell quote'')
          else (case parse responseText of
                  None \<Rightarrow> error_response 500 ''Invalid response from server''
                | Some JNull \<Rightarrow> error_response 500 ''Failed to generate sell quote''
                | Some data \<Rightarrow> json_response 200 data))"

definition optionalField :: "json \<Rightarrow> string \<Rightarrow> (string \<times> json) list" where
  \<comment> \<open>\<open>if (b.k) requestBody.k = b.k\<close>\<close>
  "optionalField b k = (case truthyField b k of None \<Rightarrow> [] | Some v \<Rightarrow> [(k, v)])"

definition quoteRequestBody :: "(string \<times> json) list \<Rightarrow> string \<Rightarrow> json \<Rightarrow> (string \<times> json) list" where
  \<comment> \<open>\<open>requestBody\<close> with the optional fields added\<close>
  "quoteRequestBody required clientIp b =
     required @ [(''clientIp'', JStr clientIp)]
     @ optionalField b ''sellNetwork'' @ optionalField b ''subdivision''"

text \<open>
  Destructuring the parsed body throws a TypeError when the body is \<open>null\<close>; like a body
  that does not parse, this ends in the outer \<open>catch\<close>.
\<close>

definition POST_sell_quote ::
  "env \<Rightarrow> jwt_generator \<Rightarrow> fetcher \<Rightarrow> json_parser \<Rightarrow> quote_request \<Rightarrow> NextResponse \<times> event list" where
  "POST_sell_quote e generateJWT fetch parse r =
     (case credentials e of
        None \<Rightarrow> (error_response 500 ''Server configuration error'', [])
      | Some (keyName, keySecret) \<Rightarrow>
     (case rq_body r of
        None \<Rightarrow> (error_response 500 ''Failed to generate sell quote'', [])
      | Some JNull \<Rightarrow> (error_response 500 ''Failed to generate sell quote'', [])
      | Some b \<Rightarrow>
     (case requiredFields b of
        None \<Rightarrow> (error_response 400 ''Missing required fields'', [])
      | Some required \<Rightarrow>
     (let clientIp = clientIpOf r;
          cdpApiUrl = ''https://api.developer.coinbase.com/onramp/v1/sell/quote'';
          apiPath = ''/onramp/v1/sell/quote''
      in case generateJWT keyName keySecret apiPath ''POST'' of
        None \<Rightarrow>
          (error_response 500 ''Authentication failed'',
           [GenerateJWT keyName keySecret apiPath ''POST''])
      | Some jwtToken \<Rightarrow>
          (let request = \<lparr>req_url = cdpApiUrl, req_method = ''POST'',
                          req_headers = [(''Content-Type'', ''application/json''),
                                         (''Accept'', ''application/json''),
                                         (''Authorization'', ''Bearer '' @ jwtToken)],
                          req_body = Some (quoteRequestBody required clientIp b)\<rparr>
           in (quoteResponse e parse (fetch request),
               [GenerateJWT keyName keySecret apiPath ''POST'', Fetch request]))))))"

subsection \<open>What the trace of a route says about paths\<close>

fun jwtPaths :: "event list \<Rightarrow> string list" where
  \<comment> \<open>the paths given to \<open>generateJWT\<close>\<close>
  "jwtPaths [] = []"
| "jwtPaths (GenerateJWT keyName keySecret p m # es) = p # jwtPaths es"
| "jwtPaths (Fetch request # es) = jwtPaths es"

fun fetchUrls :: "event list \<Rightarrow> string list" where
  \<comment> \<open>the URLs dispatched\<close>
  "fetchUrls [] = []"
| "fetchUrls (GenerateJWT keyName keySecret p m # es) = fetchUrls es"
| "fetchUrls (Fetch request # es) = req_url request # fetchUrls es"

fun afterScheme :: "string \<Rightarrow> string" where
  \<comment> \<open>what follows the first \<open>://\<close>\<close>
  "afterScheme (a # b # c # rest) =
     (if [a, b, c] = ''://'' then rest else afterScheme (b # c # rest))"
| "afterScheme s = []"

definition urlPath :: "string \<Rightarrow> string" where
  \<comment> \<open>the path component of an absolute URL: from the first \<open>/\<close> after the authority up to,
      and without, the first \<open>?\<close> or \<open>#\<close>\<close>
  "urlPath u =
     takeWhile (\<lambda>c. c \<noteq> CHR ''?'' \<and> c \<noteq> CHR ''#'')
       (dropWhile (\<lambda>c. c \<noteq> CHR ''/'' \<and> c \<noteq> CHR ''?'' \<and> c \<noteq> CHR ''#'') (afterScheme u))"

definition pathBound :: "event list \<Rightarrow> bool" where
  \<comment> \<open>no token path has a query string, and a dispatched URL has the path of the one token\<close>
  "pathBound tr \<longleftrightarrow>
     (\<forall>pa \<in> set (jwtPaths tr). CHR ''?'' \<notin> set pa)
     \<and> (\<forall>u \<in> set (fetchUrls tr). jwtPaths tr = [urlPath u])"

section \<open>Example inputs\<close>

definition unknownIdsConfig :: ApiConfigResponse where
  \<comment> \<open>a config response whose country and payment method have no display name\<close>
  "unknownIdsConfig =
     \<lparr>acr_countries =
        [\<lparr>asc_id = ''ZZ'', asc_payment_methods = [\<lparr>apm_id = ''SEPA_BANK_ACCOUNT''\<rparr>],
          asc_subdivisions = None\<rparr>]\<rparr>"

definition constructorConfig :: ApiConfigResponse where
  \<comment> \<open>a config response with the payment method id \<open>constructor\<close>\<close>
  "constructorConfig =
     \<lparr>acr_countries =
        [\<lparr>asc_id = ''US'', asc_payment_methods = [\<lparr>apm_id = ''constructor''\<rparr>],
          asc_subdivisions = None\<rparr>]\<rparr>"

definition usdCardOptions :: ApiBuyOptionsResponse where
  \<comment> \<open>a buy options response with one currency and one limits row\<close>
  "usdCardOptions =
     \<lparr>payment_currencies =
        [\<lparr>afc_id = ''USD'',
          afc_limits = [\<lparr>apl_id = ''CARD'', apl_min = ''10.00'', apl_max = ''1000.00''\<rparr>]\<rparr>],
      purchase_currencies = []\<rparr>"

definition usdAchOptions :: ApiSellOptionsResponse where
  \<comment> \<open>a sell options response with one currency and one limits row\<close>
  "usdAchOptions =
     \<lparr>cashout_currencies =
        [\<lparr>afc_id = ''USD'',
          afc_limits = [\<lparr>apl_id = ''ACH_BANK_ACCOUNT'', apl_min = ''10'', apl_max = ''25000''\<rparr>]\<rparr>],
      sell_currencies = []\<rparr>"

definition exampleCalls :: "call list" where
  \<comment> \<open>a config fetch and an options fetch that succeed, then an options fetch for another key that fails\<close>
  "exampleCalls =
     [ConfigCall 1000 (OkJson unknownIdsConfig),
      OptionsCall 1000 ''US'' (Some ''CA'') (OkJson usdCardOptions),
      OptionsCall 1000000 ''US'' None (NotOk 500)]"

definition exampleEnv :: env where
  \<comment> \<open>credentials configured, production mode\<close>
  "exampleEnv =
     \<lparr>CDP_API_KEY = Some ''key-1'', CDP_API_KEY_NAME = None, CDP_API_SECRET = Some ''secret-1'',
      CDP_API_KEY_PRIVATE_KEY = None, NODE_ENV = Some ''production''\<rparr>"

definition exampleJWT :: jwt_generator where
  "exampleJWT keyName keySecret path method = Some ''token''"

definition respond :: "nat \<Rightarrow> string \<Rightarrow> fetcher" where
  \<comment> \<open>an upstream that answers every request with the given status and body\<close>
  "respond st txt request = Responded st (Some txt)"

definition noParse :: json_parser where
  \<comment> \<open>\<open>JSON.parse\<close> on bodies that are not JSON\<close>
  "noParse s = None"

definition exampleQuote :: "(string \<times> json) list" where
  \<comment> \<open>the properties of a quote request without \<open>sellNetwork\<close> and \<open>subdivision\<close>\<close>
  "exampleQuote =
     [(''sellCurrency'', JStr ''USDC''), (''sellAmount'', JStr ''10''),
      (''cashoutCurrency'', JStr ''USD''), (''paymentMethod'', JStr ''ACH_BANK_ACCOUNT''),
      (''country'', JStr ''US''), (''sourceAddress'', JStr ''0xabc''),
      (''redirectUrl'', JStr ''https://example.com/offramp''), (''partnerUserId'', JStr ''user-1'')]"

definition exampleRequest :: "json \<Rightarrow> quote_request" where
  "exampleRequest b =
     \<lparr>rq_body = Some b, rq_x_forwarded_for = Some ''203.0.113.7, 10.0.0.1'', rq_x_real_ip = None,
      rq_ip = None\<rparr>"

definition developmentEnv :: env where
  \<comment> \<open>credentials configured, development mode\<close>
  "developmentEnv = exampleEnv\<lparr>NODE_ENV := Some ''development''\<rparr>"

definition exampleQuoteNoCountry :: json where
  \<comment> \<open>the quote request without its \<open>country\<close>\<close>
  "exampleQuoteNoCountry = JObj (filter (\<lambda>(k, v). k \<noteq> ''country'') exampleQuote)"

definition exampleQuoteWithNetwork :: json where
  \<comment> \<open>the quote request with \<open>sellNetwork\<close> and without \<open>subdivision\<close>\<close>
  "exampleQuoteWithNetwork = JObj (exampleQuote @ [(''sellNetwork'', JStr ''base'')])"

section \<open>Properties of the selection state\<close>

lemma assetNetworkMap_nonempty:
  "assetNetworkMap_get a = Own ns \<Longrightarrow> ns \<noteq> []"
  unfolding assetNetworkMap_get_def record_get_def assetNetworkMap_def
  by (auto split: if_splits)

lemma at0_includes: "ns \<noteq> [] \<Longrightarrow> includes_js ns (at0 ns)"
  by (cases ns) (simp_all add: includes_js_def at0_def)

lemma includes_iff: "includes_js ns v \<longleftrightarrow> v \<in> Some ` set ns"
  by (cases v) (auto simp: includes_js_def)

text \<open>
  C1. For an asset \<open>A\<close> that has an entry \<open>C\<close> in the compatibility table, after the network
  repair effect runs on any state whose asset is \<open>A\<close>, and after \<open>handleAssetChange\<close> to
  \<open>A\<close> from any state, the selected network is a member of \<open>C\<close>: a prior network already in
  \<open>C\<close> is kept, any other is replaced by the first entry of \<open>C\<close>. Neither throws.
\<close>

theorem repair_network_compatible:
  assumes "assetNetworkMap_get A = Own C"
  shows "selectedNetwork (fst (networkRepairEffect (s\<lparr>selectedAsset := A\<rparr>))) \<in> Some ` set C
       \<and> selectedNetwork (fst (handleAssetChange networks A s)) \<in> Some ` set C
       \<and> (selectedNetwork s \<in> Some ` set C \<longrightarrow>
            selectedNetwork (fst (networkRepairEffect (s\<lparr>selectedAsset := A\<rparr>))) = selectedNetwork s
          \<and> selectedNetwork (fst (handleAssetChange networks A s)) = selectedNetwork s)
       \<and> (selectedNetwork s \<notin> Some ` set C \<longrightarrow>
            selectedNetwork (fst (networkRepairEffect (s\<lparr>selectedAsset := A\<rparr>))) = Some (hd C)
          \<and> selectedNetwork (fst (handleAssetChange networks A s)) = Some (hd C))
       \<and> snd (networkRepairEffect (s\<lparr>selectedAsset := A\<rparr>)) = None
       \<and> snd (handleAssetChange networks A s) = None"
proof -
  from assms have ne: "C \<noteq> []" by (rule assetNetworkMap_nonempty)
  then have first: "at0 C = Some (hd C)" and mem: "hd C \<in> set C"
    by (cases C; simp add: at0_def)+
  show ?thesis
    using assms first mem
    by (simp add: networkRepairEffect_def handleAssetChange_def Let_def includes_iff)
qed

theorem repair_network_compatible_witness:
  "selectedNetwork (fst (networkRepairEffect (initialSelection\<lparr>selectedAsset := ''BTC''\<rparr>))) = Some ''bitcoin''
   \<and> selectedNetwork (fst (handleAssetChange [] ''BTC'' initialSelection)) = Some ''bitcoin''"
proof -
  have h: "assetNetworkMap_get ''BTC'' = Own [''bitcoin'']"
    by (simp add: assetNetworkMap_get_def record_get_def assetNetworkMap_def)
  show ?thesis
    using repair_network_compatible [OF h, of initialSelection "[]"]
    by (simp add: initialSelection_def)
qed

text \<open>
  C2. The repair is idempotent from every selection state: running the network repair
  effect on the state it leaves behind, or \<open>handleAssetChange\<close> for the same asset on the
  state it leaves behind, has the same outcome and leaves the same state. This includes
  the assets that name a member of \<open>Object.prototype\<close>, for which both throw a TypeError,
  the first time and every time after.
\<close>

theorem repair_idempotent:
  "networkRepairEffect (fst (networkRepairEffect s)) = networkRepairEffect s
   \<and> handleAssetChange networks a (fst (handleAssetChange networks a s))
       = handleAssetChange networks a s"
proof -
  have effect: "networkRepairEffect (fst (networkRepairEffect s)) = networkRepairEffect s"
  proof (cases "assetNetworkMap_get (selectedAsset s)")
    case (Own D)
    then have "includes_js D (at0 D)"
      by (intro at0_includes assetNetworkMap_nonempty)
    with Own show ?thesis
      by (simp add: networkRepairEffect_def)
  next
    case (Inherited k)
    then show ?thesis by (simp add: networkRepairEffect_def)
  next
    case Undefined
    then show ?thesis by (simp add: networkRepairEffect_def)
  qed
  have handler: "handleAssetChange networks a (fst (handleAssetChange networks a s))
       = handleAssetChange networks a s"
  proof (cases "assetNetworkMap_get a")
    case (Own C)
    then have "includes_js C (at0 C)"
      by (intro at0_includes assetNetworkMap_nonempty)
    with Own show ?thesis
      by (simp add: handleAssetChange_def Let_def)
  next
    case (Inherited k)
    then show ?thesis by (simp add: handleAssetChange_def Let_def)
  next
    case Undefined
    then show ?thesis by (simp add: handleAssetChange_def Let_def)
  qed
  from effect handler show ?thesis by simp
qed

text \<open>
  C6. The claim does not hold of the handler of the country select: changing the country
  from \<open>GB\<close> to \<open>US\<close> leaves the subdivision empty, where the claim requires a fixed non-empty
  default region.
\<close>

theorem country_change_us_subdivision_empty:
  "selectedCountry (countryOnChange ''US'' (initialSelection\<lparr>selectedCountry := ''GB'', selectedSubdivision := ''''\<rparr>)) = ''US''
   \<and> selectedSubdivision (countryOnChange ''US'' (initialSelection\<lparr>selectedCountry := ''GB'', selectedSubdivision := ''''\<rparr>)) = ''''
   \<and> selectedSubdivision (countryOnChange ''US'' initialSelection) = ''''"
  by (simp add: countryOnChange_def initialSelection_def)

section \<open>Properties of the normalisation\<close>

lemma displayName_unknown:
  "map_of table ident = None \<Longrightarrow> ident \<notin> set objectPrototypeKeys \<Longrightarrow> displayName table ident = Text ident"
  by (simp add: displayName_def record_get_def)

lemma paymentMethodName_unknown:
  "map_of table ident = None \<Longrightarrow> ident \<noteq> ''constructor'' \<Longrightarrow> paymentMethodName table ident = ident"
  by (simp add: paymentMethodName_def record_get_def memberName_def orElse_def)

text \<open>
  What holds of C8: both config transforms keep every country and every payment method,
  in order; a country identifier without an entry in the display-name table is its own
  display name unless it names a member of \<open>Object.prototype\<close>, and a payment-method
  identifier without an entry is its own display name unless it is \<open>constructor\<close>.
\<close>

lemma config_transform_keeps_entries:
  "map co_id (bc_countries (transformBuyConfigResponse r)) = map asc_id (acr_countries r)
   \<and> map cy_code (sc_countries (transformSellConfigResponse r)) = map asc_id (acr_countries r)
   \<and> (\<forall>i < length (acr_countries r).
        let c = acr_countries r ! i;
            b = bc_countries (transformBuyConfigResponse r) ! i;
            s = sc_countries (transformSellConfigResponse r) ! i
        in map pm_id (co_paymentMethods b) = map apm_id (asc_payment_methods c)
         \<and> map cm_id (cy_cashout_methods s) = map apm_id (asc_payment_methods c)
         \<and> (map_of countryNames_onramp (asc_id c) = None \<and> asc_id c \<notin> set objectPrototypeKeys \<longrightarrow>
              co_name b = Text (asc_id c))
         \<and> (map_of countryNames_offramp (asc_id c) = None \<and> asc_id c \<notin> set objectPrototypeKeys \<longrightarrow>
              cy_name s = Text (asc_id c))
         \<and> (\<forall>j < length (asc_payment_methods c).
              let p = asc_payment_methods c ! j
              in (map_of paymentMethodNames_onramp (apm_id p) = None \<and> apm_id p \<noteq> ''constructor'' \<longrightarrow>
                    pm_name (co_paymentMethods b ! j) = apm_id p)
               \<and> (map_of paymentMethodNames_offramp (apm_id p) = None \<and> apm_id p \<noteq> ''constructor'' \<longrightarrow>
                    cm_name (cy_cashout_methods s ! j) = apm_id p)))"
  by (simp add: transformBuyConfigResponse_def transformSellConfigResponse_def Let_def
        displayName_unknown paymentMethodName_unknown comp_def)

text \<open>
  C8. The claim does not hold of the config transforms: the payment-method identifier
  \<open>constructor\<close> has no entry in either display-name table, and both transforms give it
  the display name \<open>Object\<close>, not the raw identifier; a country with the identifier
  \<open>constructor\<close> gets the inherited member as its name, not the raw identifier.
\<close>

theorem config_transform_constructor_name:
  "map_of paymentMethodNames_onramp ''constructor'' = None
   \<and> map_of paymentMethodNames_offramp ''constructor'' = None
   \<and> transformBuyConfigResponse constructorConfig =
       \<lparr>bc_countries =
          [\<lparr>co_id = ''US'', co_name = Text ''United States'',
            co_paymentMethods =
              [\<lparr>pm_id = ''constructor'', pm_name = ''Object'', pm_description = None\<rparr>],
            co_subdivisions = None\<rparr>]\<rparr>
   \<and> transformSellConfigResponse constructorConfig =
       \<lparr>sc_countries =
          [\<lparr>cy_code = ''US'', cy_name = Text ''United States'',
            cy_cashout_methods =
              [\<lparr>cm_id = ''constructor'', cm_name = ''Object'', cm_description = None\<rparr>],
            cy_supported_states = None\<rparr>]\<rparr>
   \<and> map co_name (bc_countries (transformBuyConfigResponse
         \<lparr>acr_countries = [\<lparr>asc_id = ''constructor'', asc_payment_methods = [],
                             asc_subdivisions = None\<rparr>]\<rparr>))
       = [Member ''constructor'']"
proof -
  have t: "map_of paymentMethodNames_onramp ''constructor'' = None"
          "map_of paymentMethodNames_offramp ''constructor'' = None"
          "map_of countryNames_onramp ''constructor'' = None"
    by (simp_all add: paymentMethodNames_onramp_def paymentMethodNames_offramp_def
          countryNames_onramp_def)
  have us: "map_of countryNames_onramp ''US'' = Some ''United States''"
           "map_of countryNames_offramp ''US'' = Some ''United States''"
    by (simp_all add: countryNames_onramp_def countryNames_offramp_def)
  have k: "''constructor'' \<in> set objectPrototypeKeys"
    by (simp add: objectPrototypeKeys_def)
  show ?thesis
    by (simp add: t us k transformBuyConfigResponse_def transformSellConfigResponse_def
          constructorConfig_def displayName_def paymentMethodName_def
          paymentMethodDescription_def record_get_def memberName_def orElse_def)
qed

text \<open>
  C9, as stated, fails for the buy module: its transform copies each limits row as
  \<open>{id, min, max}\<close> under its currency; no payment method with a map indexed by currency
  code is produced.
\<close>

theorem buy_options_limits_counterexample:
  "transformBuyOptionsResponse usdCardOptions =
     \<lparr>bo_paymentCurrencies =
        [\<lparr>pc_id = ''USD'', pc_name = Text ''US Dollar'',
          pc_limits = [\<lparr>cl_id = ''CARD'', cl_min = ''10.00'', cl_max = ''1000.00''\<rparr>]\<rparr>],
      bo_purchaseCurrencies = []\<rparr>"
  by (simp add: transformBuyOptionsResponse_def usdCardOptions_def displayName_def
        record_get_def currencyNames_onramp_def)

text \<open>
  C9, amended. The sell options transform keeps the currencies in order and turns every
  limits row of a currency into one cashout method, in order, whose \<open>limits\<close> map has
  exactly one key, the code of that currency, bound to the row's \<open>{min, max}\<close>. The buy
  options transform keeps the rows as a list of \<open>{id, min, max}\<close> under their currency.
\<close>

theorem sell_options_limits_by_currency:
  "map fc_code (so_cashout_currencies (transformSellOptionsResponse r)) = map afc_id (cashout_currencies r)
   \<and> (\<forall>i < length (cashout_currencies r).
        let c = cashout_currencies r ! i;
            f = so_cashout_currencies (transformSellOptionsResponse r) ! i
        in map cmo_id (fc_cashout_methods f) = map apl_id (afc_limits c)
         \<and> (\<forall>j < length (afc_limits c). \<forall>code.
              map_of (cmo_limits (fc_cashout_methods f ! j)) code =
                (if code = afc_id c
                 then Some \<lparr>lim_min = apl_min (afc_limits c ! j), lim_max = apl_max (afc_limits c ! j)\<rparr>
                 else None)))
   \<and> map pc_id (bo_paymentCurrencies (transformBuyOptionsResponse b)) = map afc_id (payment_currencies b)
   \<and> (\<forall>i < length (payment_currencies b).
        pc_limits (bo_paymentCurrencies (transformBuyOptionsResponse b) ! i) =
          map (\<lambda>limit. \<lparr>cl_id = apl_id limit, cl_min = apl_min limit, cl_max = apl_max limit\<rparr>)
            (afc_limits (payment_currencies b ! i)))"
  by (simp add: transformSellOptionsResponse_def transformBuyOptionsResponse_def Let_def comp_def)

theorem sell_options_limits_by_currency_witness:
  "map fc_code (so_cashout_currencies (transformSellOptionsResponse usdAchOptions)) = [''USD'']
   \<and> map_of (cmo_limits (fc_cashout_methods
        (so_cashout_currencies (transformSellOptionsResponse usdAchOptions) ! 0) ! 0)) ''USD''
       = Some \<lparr>lim_min = ''10'', lim_max = ''25000''\<rparr>
   \<and> map_of (cmo_limits (fc_cashout_methods
        (so_cashout_currencies (transformSellOptionsResponse usdAchOptions) ! 0) ! 0)) ''EUR''
       = None
   \<and> pc_limits (bo_paymentCurrencies (transformBuyOptionsResponse usdCardOptions) ! 0)
       = [\<lparr>cl_id = ''CARD'', cl_min = ''10.00'', cl_max = ''1000.00''\<rparr>]"
proof -
  have r: "cashout_currencies usdAchOptions =
      [\<lparr>afc_id = ''USD'',
        afc_limits = [\<lparr>apl_id = ''ACH_BANK_ACCOUNT'', apl_min = ''10'', apl_max = ''25000''\<rparr>]\<rparr>]"
    by (simp add: usdAchOptions_def)
  have b: "payment_currencies usdCardOptions =
      [\<lparr>afc_id = ''USD'',
        afc_limits = [\<lparr>apl_id = ''CARD'', apl_min = ''10.00'', apl_max = ''1000.00''\<rparr>]\<rparr>]"
    by (simp add: usdCardOptions_def)
  show ?thesis
    using sell_options_limits_by_currency [of usdAchOptions usdCardOptions]
    by (simp add: r b Let_def)
qed

section \<open>Properties of the catalogue fetchers\<close>

lemma isFailure_responseData: "isFailure res \<Longrightarrow> \<exists>e. responseData res = Inl e"
  by (cases res) (simp_all add: isFailure_def responseData_def)

lemma fetchBuyConfig_failure:
  assumes "isFailure res"
  shows "fetchBuyConfig now res m =
           (Inr (case buyConfigCache m of Some cached \<Rightarrow> cached | None \<Rightarrow> buyConfigFallback), m)"
proof -
  from assms obtain e where e: "responseData res = Inl e"
    using isFailure_responseData by blast
  show ?thesis
    by (cases "buyConfigCache m")
      (simp_all add: fetchBuyConfig_def fetchBuyConfig_try_def validConfigCache_def e)
qed

lemma fetchBuyOptions_failure:
  assumes "isFailure res"
  shows "fetchBuyOptions now country subdivision res m =
           (Inr (case buyOptionsCache_get m (cacheKey country subdivision) of
                   Some cached \<Rightarrow> cached | None \<Rightarrow> Data buyOptionsFallback), m)"
proof -
  from assms obtain e where e: "responseData res = Inl e"
    using isFailure_responseData by blast
  show ?thesis
    by (cases "buyOptionsCache_get m (cacheKey country subdivision)";
        cases "lastOptionsFetch_get m (cacheKey country subdivision)")
      (simp_all add: fetchBuyOptions_def fetchBuyOptions_try_def validOptionsCache_def e Let_def)
qed

lemma stored_buyOptionsCache_get:
  "storedOptions m k = Some d \<Longrightarrow> buyOptionsCache_get m k = Some (Data d)"
  by (simp add: buyOptionsCache_get_def)

lemma storedOptions_set:
  "storedOptions (lastOptionsFetch_set k' t (buyOptionsCache_set k' d m)) k =
     (if k = k' then Some d else storedOptions m k)"
  by (simp add: storedOptions_def lastOptionsFetch_set_def buyOptionsCache_set_def)

lemma buyConfigCache_set:
  "buyConfigCache (lastOptionsFetch_set k' t (buyOptionsCache_set k' d m)) = buyConfigCache m"
  by (simp add: lastOptionsFetch_set_def buyOptionsCache_set_def)

lemma step_buyConfigCache:
  "buyConfigCache (step c m) =
     (case fetchedConfig c m of Some v \<Rightarrow> Some v | None \<Rightarrow> buyConfigCache m)"
proof (cases c)
  case (ConfigCall now res)
  then show ?thesis
    by (cases res; cases "validConfigCache now m"; cases "buyConfigCache m")
      (simp_all add: fetchBuyConfig_def fetchBuyConfig_try_def responseData_def Let_def)
next
  case (OptionsCall now country subdivision res)
  then show ?thesis
    by (cases res; cases "validOptionsCache now (cacheKey country subdivision) m";
        cases "buyOptionsCache_get m (cacheKey country subdivision)")
      (simp_all add: fetchBuyOptions_def fetchBuyOptions_try_def responseData_def Let_def
         buyConfigCache_set)
qed

lemma step_storedOptions:
  "storedOptions (step c m) k =
     (case fetchedOptions k c m of Some v \<Rightarrow> Some v | None \<Rightarrow> storedOptions m k)"
proof (cases c)
  case (ConfigCall now res)
  then show ?thesis
    by (cases res; cases "validConfigCache now m"; cases "buyConfigCache m")
      (simp_all add: fetchBuyConfig_def fetchBuyConfig_try_def responseData_def Let_def
         storedOptions_def)
next
  case (OptionsCall now country subdivision res)
  show ?thesis
  proof (cases "cacheKey country subdivision = k")
    case True
    with OptionsCall show ?thesis
      by (cases res; cases "validOptionsCache now k m"; cases "buyOptionsCache_get m k")
        (simp_all add: fetchBuyOptions_def fetchBuyOptions_try_def responseData_def Let_def
           storedOptions_set)
  next
    case False
    with OptionsCall show ?thesis
      by (cases res; cases "validOptionsCache now (cacheKey country subdivision) m";
          cases "buyOptionsCache_get m (cacheKey country subdivision)")
        (auto simp: fetchBuyOptions_def fetchBuyOptions_try_def responseData_def Let_def
           storedOptions_set)
  qed
qed

text \<open>
  Invariant of the module-level cache: after any sequence of calls, the value stored for
  the config, or for an options key, is the value of the last successful upstream fetch
  for it, or what was stored before when no call of the sequence fetched it.
\<close>

lemma run_buyConfigCache:
  "buyConfigCache (run cs m) =
     (case lastFetchedConfig cs m of Some v \<Rightarrow> Some v | None \<Rightarrow> buyConfigCache m)"
proof (induction cs arbitrary: m)
  case Nil
  show ?case by simp
next
  case (Cons c cs)
  show ?case
    by (simp add: Cons.IH step_buyConfigCache split: option.splits)
qed

lemma run_storedOptions:
  "storedOptions (run cs m) k =
     (case lastFetchedOptions k cs m of Some v \<Rightarrow> Some v | None \<Rightarrow> storedOptions m k)"
proof (induction cs arbitrary: m)
  case Nil
  show ?case by simp
next
  case (Cons c cs)
  show ?case
    by (simp add: Cons.IH step_storedOptions split: option.splits)
qed

text \<open>
  C3, as stated, fails for the sell module, which keeps no cache: a sell options fetch
  that succeeded is followed by a failing fetch for the same country and subdivision,
  and the failing fetch returns the static fallback dataset, not the fetched value.
\<close>

theorem sell_options_stale_counterexample:
  "fetchSellOptions ''US'' (Some ''CA'') (OkJson usdAchOptions)
     = Inr \<lparr>so_cashout_currencies =
              [\<lparr>fc_code = ''USD'', fc_name = Text ''US Dollar'',
                fc_cashout_methods =
                  [\<lparr>cmo_id = ''ACH_BANK_ACCOUNT'', cmo_name = ''Bank Transfer (ACH)'',
                    cmo_limits = [(''USD'', \<lparr>lim_min = ''10'', lim_max = ''25000''\<rparr>)]\<rparr>]\<rparr>],
            so_sell_currencies = []\<rparr>
   \<and> fetchSellOptions ''US'' (Some ''CA'') (NotOk 500) = Inr sellOptionsFallback
   \<and> fetchSellOptions ''US'' (Some ''CA'') (NotOk 500)
       \<noteq> fetchSellOptions ''US'' (Some ''CA'') (OkJson usdAchOptions)"
  by (simp add: fetchSellOptions_def responseData_def transformSellOptionsResponse_def
        usdAchOptions_def sellOptionsFallback_def displayName_def paymentMethodName_def
        record_get_def currencyNames_offramp_def paymentMethodNames_offramp_def)

text \<open>
  C3, amended. In the buy module, once a sequence of calls contains a successful upstream
  fetch of the config (or of the options for a cache key), a later config fetch (or
  options fetch for that key) whose request fails returns the value of the last such
  successful fetch and leaves the cache as it is. The sell module keeps no cache.
\<close>

theorem buy_fetch_failure_serves_last_success:
  "(lastFetchedConfig cs m = Some v \<and> isFailure res \<longrightarrow>
      fetchBuyConfig now res (run cs m) = (Inr v, run cs m))
   \<and> (lastFetchedOptions (cacheKey country subdivision) cs m = Some w \<and> isFailure res' \<longrightarrow>
      fetchBuyOptions now country subdivision res' (run cs m) = (Inr (Data w), run cs m))"
proof (intro conjI impI)
  assume "lastFetchedConfig cs m = Some v \<and> isFailure res"
  then show "fetchBuyConfig now res (run cs m) = (Inr v, run cs m)"
    by (simp add: fetchBuyConfig_failure run_buyConfigCache)
next
  assume a: "lastFetchedOptions (cacheKey country subdivision) cs m = Some w \<and> isFailure res'"
  then have "storedOptions (run cs m) (cacheKey country subdivision) = Some w"
    by (simp add: run_storedOptions)
  then have "buyOptionsCache_get (run cs m) (cacheKey country subdivision) = Some (Data w)"
    by (rule stored_buyOptionsCache_get)
  with a show "fetchBuyOptions now country subdivision res' (run cs m) = (Inr (Data w), run cs m)"
    by (simp add: fetchBuyOptions_failure)
qed

theorem buy_fetch_failure_serves_last_success_witness:
  "fetchBuyConfig 2000000 FetchRejects (run exampleCalls initialCache)
     = (Inr (transformBuyConfigResponse unknownIdsConfig), run exampleCalls initialCache)
   \<and> fetchBuyOptions 2000000 ''US'' (Some ''CA'') BodyNotJson (run exampleCalls initialCache)
     = (Inr (Data (transformBuyOptionsResponse usdCardOptions)), run exampleCalls initialCache)"
proof -
  have k: "cacheKey ''US'' (Some ''CA'') = ''US-CA''" "cacheKey ''US'' None = ''US''"
    by (simp_all add: cacheKey_def)
  have c: "lastFetchedConfig exampleCalls initialCache
             = Some (transformBuyConfigResponse unknownIdsConfig)"
    by (simp add: exampleCalls_def k fetchBuyConfig_def fetchBuyConfig_try_def
          fetchBuyOptions_def fetchBuyOptions_try_def validConfigCache_def validOptionsCache_def
          buyOptionsCache_get_def storedOptions_def lastOptionsFetch_get_def
          buyOptionsCache_set_def lastOptionsFetch_set_def objectPrototypeKeys_def
          responseData_def initialCache_def CACHE_EXPIRY_def Let_def)
  have o: "lastFetchedOptions (cacheKey ''US'' (Some ''CA'')) exampleCalls initialCache
             = Some (transformBuyOptionsResponse usdCardOptions)"
    by (simp add: exampleCalls_def k fetchBuyConfig_def fetchBuyConfig_try_def
          fetchBuyOptions_def fetchBuyOptions_try_def validConfigCache_def validOptionsCache_def
          buyOptionsCache_get_def storedOptions_def lastOptionsFetch_get_def
          buyOptionsCache_set_def lastOptionsFetch_set_def objectPrototypeKeys_def
          responseData_def initialCache_def CACHE_EXPIRY_def Let_def)
  have f: "isFailure (FetchRejects :: ApiConfigResponse api_result)"
          "isFailure (BodyNotJson :: ApiBuyOptionsResponse api_result)"
    by (simp_all add: isFailure_def)
  show ?thesis
    using buy_fetch_failure_serves_last_success
      [of exampleCalls initialCache "transformBuyConfigResponse unknownIdsConfig" FetchRejects
          2000000 "''US''" "Some ''CA''" "transformBuyOptionsResponse usdCardOptions"
          BodyNotJson] c o f
    by simp
qed

lemma fetchSell_failure:
  assumes "isFailure res" and "isFailure res'"
  shows "fetchSellConfig res = Inr sellConfigFallback"
    and "fetchSellOptions country subdivision res' = Inr sellOptionsFallback"
proof -
  obtain e e' where "responseData res = Inl e" "responseData res' = Inl e'"
    using isFailure_responseData [OF assms(1)] isFailure_responseData [OF assms(2)] by blast
  then show "fetchSellConfig res = Inr sellConfigFallback"
    and "fetchSellOptions country subdivision res' = Inr sellOptionsFallback"
    by (simp_all add: fetchSellConfig_def fetchSellOptions_def)
qed

text \<open>
  What holds of C4: a config fetch of either module, and a sell options fetch, whose
  request fails with nothing cached resolves to the static fallback dataset; so does a
  buy options fetch whenever reading the cache under its key yields undefined.
\<close>

lemma fetch_failure_returns_fallback:
  assumes "isFailure resC" and "isFailure resB" and "isFailure resS"
    and "buyConfigCache m = None"
    and "buyOptionsCache_get m (cacheKey country subdivision) = None"
  shows "fetchBuyConfig now resC m = (Inr buyConfigFallback, m)
       \<and> fetchBuyOptions now country subdivision resB m = (Inr (Data buyOptionsFallback), m)
       \<and> fetchSellConfig resC = Inr sellConfigFallback
       \<and> fetchSellOptions country subdivision resS = Inr sellOptionsFallback"
  using assms
  by (simp add: fetchBuyConfig_failure fetchBuyOptions_failure fetchSell_failure)

text \<open>
  C4. The claim does not hold of \<open>fetchBuyOptions\<close>: with nothing ever fetched, a failing
  fetch for the country \<open>constructor\<close> finds the inherited member \<open>Object\<close> under its cache key
  and resolves to it, not to the static fallback dataset. For the country \<open>US\<close> the same
  call resolves to the fallback.
\<close>

theorem fetchBuyOptions_inherited_key_not_fallback:
  "fetchBuyOptions 1000 ''constructor'' None (NotOk 500) initialCache
     = (Inr (InheritedMember ''constructor''), initialCache)
   \<and> fetchBuyOptions 1000 ''US'' None (NotOk 500) initialCache
     = (Inr (Data buyOptionsFallback), initialCache)"
proof -
  have f: "isFailure (NotOk 500 :: ApiBuyOptionsResponse api_result)"
    by (simp add: isFailure_def)
  have k: "buyOptionsCache_get initialCache (cacheKey ''constructor'' None)
             = Some (InheritedMember ''constructor'')"
          "buyOptionsCache_get initialCache (cacheKey ''US'' None) = None"
    by (simp_all add: buyOptionsCache_get_def storedOptions_def initialCache_def cacheKey_def
          objectPrototypeKeys_def)
  show ?thesis
    by (simp add: fetchBuyOptions_failure [OF f] k)
qed

section \<open>Properties of the API routes\<close>

lemma upstreamGET_trace:
  "snd (upstreamGET failed url path k s g f p) =
     (case g k s path ''GET'' of
        None \<Rightarrow> [GenerateJWT k s path ''GET'']
      | Some tok \<Rightarrow>
          [GenerateJWT k s path ''GET'',
           Fetch \<lparr>req_url = url, req_method = ''GET'',
                  req_headers = [(''Accept'', ''application/json''), (''Authorization'', ''Bearer '' @ tok)],
                  req_body = None\<rparr>])"
  by (simp add: upstreamGET_def Let_def split: option.splits)

lemma those_None: "None \<in> set xs \<Longrightarrow> those xs = None"
  by (induction xs) (auto split: option.splits)

lemma those_keys:
  "those (map (\<lambda>k. map_option (Pair k) (h k)) ks) = Some ys \<Longrightarrow> map fst ys = ks"
  by (induction ks arbitrary: ys) (auto split: option.splits)

lemma requiredFields_None:
  assumes "\<exists>n \<in> set requiredNames. bodyField b n = None"
  shows "requiredFields b = None"
proof -
  from assms obtain n where n: "n \<in> set requiredNames" and "bodyField b n = None" by blast
  then have "map_option (Pair n) (truthyField b n) = None"
    by (simp add: truthyField_def)
  with n have "None \<in> set (map (\<lambda>k. map_option (Pair k) (truthyField b k)) requiredNames)"
    by (metis (mono_tags, lifting) image_eqI list.set_map)
  then show ?thesis
    unfolding requiredFields_def by (rule those_None)
qed

lemma requiredFields_keys:
  "requiredFields b = Some required \<Longrightarrow> map fst required = requiredNames"
  unfolding requiredFields_def by (rule those_keys)

lemma requiredFields_JNull: "requiredFields JNull = None"
  by (rule requiredFields_None) (auto simp: requiredNames_def bodyField_def)

lemma POST_sell_quote_no_body:
  assumes "rq_body r = None \<or> rq_body r = Some JNull"
  shows "POST_sell_quote e g f p r =
     (case credentials e of
        None \<Rightarrow> (error_response 500 ''Server configuration error'', [])
      | Some ks \<Rightarrow> (error_response 500 ''Failed to generate sell quote'', []))"
  using assms by (auto simp: POST_sell_quote_def split: option.splits)

lemma POST_sell_quote_body:
  assumes "credentials e = Some (k, s)" and "rq_body r = Some b" and "b \<noteq> JNull"
  shows "POST_sell_quote e g f p r =
     (case requiredFields b of
        None \<Rightarrow> (error_response 400 ''Missing required fields'', [])
      | Some required \<Rightarrow>
     (case g k s ''/onramp/v1/sell/quote'' ''POST'' of
        None \<Rightarrow>
          (error_response 500 ''Authentication failed'',
           [GenerateJWT k s ''/onramp/v1/sell/quote'' ''POST''])
      | Some tok \<Rightarrow>
          (quoteResponse e p
             (f \<lparr>req_url = ''https://api.developer.coinbase.com/onramp/v1/sell/quote'',
                 req_method = ''POST'',
                 req_headers = [(''Content-Type'', ''application/json''),
                                (''Accept'', ''application/json''),
                                (''Authorization'', ''Bearer '' @ tok)],
                 req_body = Some (quoteRequestBody required (clientIpOf r) b)\<rparr>),
           [GenerateJWT k s ''/onramp/v1/sell/quote'' ''POST'',
            Fetch \<lparr>req_url = ''https://api.developer.coinbase.com/onramp/v1/sell/quote'',
                   req_method = ''POST'',
                   req_headers = [(''Content-Type'', ''application/json''),
                                  (''Accept'', ''application/json''),
                                  (''Authorization'', ''Bearer '' @ tok)],
                   req_body = Some (quoteRequestBody required (clientIpOf r) b)\<rparr>])))"
  using assms
  by (cases b) (simp_all add: POST_sell_quote_def Let_def split: option.splits)

lemma urlPath_routes:
  "urlPath ''https://api.developer.coinbase.com/onramp/v1/buy/config'' = ''/onramp/v1/buy/config''"
  "urlPath ''https://api.developer.coinbase.com/onramp/v1/sell/config'' = ''/onramp/v1/sell/config''"
  "urlPath ''https://api.developer.coinbase.com/onramp/v1/sell/quote'' = ''/onramp/v1/sell/quote''"
  "urlPath (''https://api.developer.coinbase.com/onramp/v1/sell/options?'' @ q) = ''/onramp/v1/sell/options''"
  by (simp_all add: urlPath_def)

lemma upstreamGET_pathBound:
  assumes "urlPath url = path" and "CHR ''?'' \<notin> set path"
  shows "pathBound (snd (upstreamGET failed url path k s g f p))"
  using assms by (simp add: pathBound_def upstreamGET_trace split: option.splits)

lemma GET_buy_config_pathBound: "pathBound (snd (GET_buy_config e g f p))"
proof (cases "credentials e")
  case None
  then show ?thesis by (simp add: GET_buy_config_def pathBound_def)
next
  case (Some ks)
  obtain k s where ks: "ks = (k, s)" by (cases ks)
  have "pathBound (snd (upstreamGET ''Failed to fetch buy config''
      ''https://api.developer.coinbase.com/onramp/v1/buy/config''
      ''/onramp/v1/buy/config'' k s g f p))"
    by (rule upstreamGET_pathBound [OF urlPath_routes(1)]) simp
  with Some ks show ?thesis by (simp add: GET_buy_config_def)
qed

lemma GET_sell_config_pathBound: "pathBound (snd (GET_sell_config e g f p))"
proof (cases "credentials e")
  case None
  then show ?thesis by (simp add: GET_sell_config_def pathBound_def)
next
  case (Some ks)
  obtain k s where ks: "ks = (k, s)" by (cases ks)
  have "pathBound (snd (upstreamGET ''Failed to fetch sell config''
      ''https://api.developer.coinbase.com/onramp/v1/sell/config''
      ''/onramp/v1/sell/config'' k s g f p))"
    by (rule upstreamGET_pathBound [OF urlPath_routes(2)]) simp
  with Some ks show ?thesis by (simp add: GET_sell_config_def)
qed

lemma GET_sell_options_pathBound:
  "pathBound (snd (GET_sell_options e g f p country subdivision networks))"
proof (cases "nonEmpty country")
  case None
  then show ?thesis by (simp add: GET_sell_options_def pathBound_def)
next
  case (Some c)
  note c = this
  show ?thesis
  proof (cases "credentials e")
    case None
    with c show ?thesis by (simp add: GET_sell_options_def pathBound_def)
  next
    case (Some ks)
    obtain k s where ks: "ks = (k, s)" by (cases ks)
    have "pathBound (snd (upstreamGET ''Failed to fetch sell options''
        (''https://api.developer.coinbase.com/onramp/v1/sell/options?'' @ q)
        ''/onramp/v1/sell/options'' k s g f p))" for q
      by (rule upstreamGET_pathBound [OF urlPath_routes(4)]) simp
    with c Some ks show ?thesis
      by (simp only: GET_sell_options_def Let_def option.case prod.case)
  qed
qed

lemma POST_sell_quote_pathBound: "pathBound (snd (POST_sell_quote e g f p r))"
proof (cases "credentials e")
  case None
  then show ?thesis by (simp add: POST_sell_quote_def pathBound_def)
next
  case (Some ks)
  obtain k s where ks: "ks = (k, s)" by (cases ks)
  show ?thesis
  proof (cases "rq_body r = None \<or> rq_body r = Some JNull")
    case True
    then show ?thesis
      by (simp add: POST_sell_quote_no_body Some pathBound_def)
  next
    case False
    then obtain b where b: "rq_body r = Some b" "b \<noteq> JNull" by auto
    show ?thesis
      unfolding POST_sell_quote_body [OF Some [unfolded ks] b]
      by (simp add: pathBound_def urlPath_routes(3) split: option.splits)
  qed
qed

text \<open>
  C5. In every run of the buy-config, sell-config, sell-options and sell-quote routes,
  a path given to the token generator contains no \<open>?\<close>, and whenever a request is
  dispatched, exactly one token was generated and its path is the path component of the
  dispatched URL, also when sell-options appends query parameters to the URL.
\<close>

theorem jwt_path_is_dispatched_path:
  "\<forall>tr \<in> {snd (GET_buy_config e g f p), snd (GET_sell_config e g f p),
            snd (GET_sell_options e g f p country subdivision networks),
            snd (POST_sell_quote e g f p r)}.
     (\<forall>pa \<in> set (jwtPaths tr). CHR ''?'' \<notin> set pa)
     \<and> (\<forall>u \<in> set (fetchUrls tr). jwtPaths tr = [urlPath u])"
  using GET_buy_config_pathBound [of e g f p] GET_sell_config_pathBound [of e g f p]
    GET_sell_options_pathBound [of e g f p country subdivision networks]
    POST_sell_quote_pathBound [of e g f p r]
  unfolding pathBound_def by blast

theorem jwt_path_is_dispatched_path_witness:
  "fetchUrls (snd (GET_sell_options exampleEnv exampleJWT (respond 200 ''{}'') noParse
                    (Some ''US'') (Some ''CA'') None))
     = [''https://api.developer.coinbase.com/onramp/v1/sell/options?country=US&subdivision=CA'']
   \<and> jwtPaths (snd (GET_sell_options exampleEnv exampleJWT (respond 200 ''{}'') noParse
                    (Some ''US'') (Some ''CA'') None))
     = [''/onramp/v1/sell/options'']"
proof -
  have u: "fetchUrls (snd (GET_sell_options exampleEnv exampleJWT (respond 200 ''{}'') noParse
                    (Some ''US'') (Some ''CA'') None))
     = [''https://api.developer.coinbase.com/onramp/v1/sell/options?country=US&subdivision=CA'']"
    by (simp add: GET_sell_options_def upstreamGET_trace exampleEnv_def exampleJWT_def
          credentials_def jsOr_def truthy_def nonEmpty_def toQueryString_def formEncode_def
          isFormSafe_def Let_def)
  show ?thesis
    using jwt_path_is_dispatched_path
      [of exampleEnv exampleJWT "respond 200 ''{}''" noParse "Some ''US''" "Some ''CA''" None
          "exampleRequest (JObj exampleQuote)"] u
    by (simp add: urlPath_def)
qed

lemma rejection_status:
  assumes "400 \<le> st" and "st \<le> 599"
  shows "\<not> is_ok st" and "validInitStatus st"
  using assms by (simp_all add: is_ok_def validInitStatus_def)

lemma forwardedResponse_rejected:
  assumes "400 \<le> st" and "st \<le> 599"
  shows "forwardedResponse failed p (Responded st (Some body)) =
           json_response st (JObj [(''error'', JStr failed), (''details'', JStr body)])"
  using rejection_status [OF assms]
  by (simp add: forwardedResponse_def obj_def List.map_filter_simps)

lemma upstreamGET_rejected:
  assumes "g k s path ''GET'' \<noteq> None" and "\<And>request. f request = Responded st (Some body)"
    and "400 \<le> st" and "st \<le> 599"
  shows "fst (upstreamGET failed url path k s g f p) =
           json_response st (JObj [(''error'', JStr failed), (''details'', JStr body)])"
  using assms by (auto simp: upstreamGET_def Let_def forwardedResponse_rejected)

lemma quoteResponse_rejected:
  assumes "400 \<le> st" and "st \<le> 599"
  shows "quoteResponse e p (Responded st (Some body)) =
           json_response st
             (if NODE_ENV e = Some ''development''
              then JObj ([(''error'', JStr ''Failed to generate sell quote''),
                          (''details'', errorDetailsOf p body),
                          (''status'', JNum (of_nat st))]
                         @ (if st = 401
                            then [(''hint'', JStr ''Check your CDP API credentials in .env.local'')]
                            else []))
              else JObj ((''error'', JStr ''Failed to generate sell quote'')
                         # (if st = 401
                            then [(''details'', JStr ''Authentication failed - check API credentials'')]
                            else [])))"
  using rejection_status [OF assms]
  by (simp add: quoteResponse_def quoteRejection_def obj_def List.map_filter_simps Let_def)

text \<open>
  C7, as stated, fails: no route has an authentication-failure error. For an upstream
  403 the sell-config route and the sell-quote route answer with the same error body as
  for an upstream 500; only the forwarded status code differs.
\<close>

theorem auth_failure_not_distinct_counterexample:
  "resp_body (fst (GET_sell_config exampleEnv exampleJWT (respond 403 ''denied'') noParse))
     = JObj [(''error'', JStr ''Failed to fetch sell config''), (''details'', JStr ''denied'')]
   \<and> resp_body (fst (GET_sell_config exampleEnv exampleJWT (respond 500 ''denied'') noParse))
     = JObj [(''error'', JStr ''Failed to fetch sell config''), (''details'', JStr ''denied'')]
   \<and> resp_body (fst (POST_sell_quote exampleEnv exampleJWT (respond 403 ''denied'') noParse
                       (exampleRequest (JObj exampleQuote))))
     = JObj [(''error'', JStr ''Failed to generate sell quote'')]
   \<and> resp_body (fst (POST_sell_quote exampleEnv exampleJWT (respond 500 ''denied'') noParse
                       (exampleRequest (JObj exampleQuote))))
     = JObj [(''error'', JStr ''Failed to generate sell quote'')]"
proof -
  have cred: "credentials exampleEnv = Some (''key-1'', ''secret-1'')"
    by (simp add: credentials_def exampleEnv_def jsOr_def truthy_def nonEmpty_def)
  have req: "requiredFields (JObj exampleQuote) \<noteq> None"
    by (simp add: requiredFields_def requiredNames_def truthyField_def bodyField_def
          exampleQuote_def)
  have env: "NODE_ENV exampleEnv \<noteq> Some ''development''"
    by (simp add: exampleEnv_def)
  have b: "rq_body (exampleRequest (JObj exampleQuote)) = Some (JObj exampleQuote)"
    by (simp add: exampleRequest_def)
  have cfg: "fst (GET_sell_config exampleEnv exampleJWT (respond st ''denied'') noParse) =
      json_response st (JObj [(''error'', JStr ''Failed to fetch sell config''), (''details'', JStr ''denied'')])"
    if "400 \<le> st" and "st \<le> 599" for st
    using that
    by (simp add: GET_sell_config_def cred upstreamGET_def exampleJWT_def respond_def
          forwardedResponse_rejected)
  have quo: "fst (POST_sell_quote exampleEnv exampleJWT (respond st ''denied'') noParse
                       (exampleRequest (JObj exampleQuote))) =
      json_response st
             (JObj ((''error'', JStr ''Failed to generate sell quote'')
                    # (if st = 401
                       then [(''details'', JStr ''Authentication failed - check API credentials'')]
                       else [])))"
    if "400 \<le> st" and "st \<le> 599" for st
    using that req env
    by (auto simp: POST_sell_quote_body [OF cred b] exampleJWT_def respond_def
          quoteResponse_rejected)
  show ?thesis
    by (simp add: cfg quo json_response_def)
qed

text \<open>
  C7, amended. When the upstream API answers a config, options or quote request with a
  4xx or 5xx status, the route answers with that same status and its generic error label,
  whatever the status: the GET routes add the upstream body as \<open>details\<close>. The sell-quote
  route marks status 401 only: outside development mode it adds the details
  "Authentication failed - check API credentials" for 401 and nothing for any other
  status; in development mode it adds the upstream error details and the status for
  every status, and the hint "Check your CDP API credentials in .env.local" for 401. A
  403 is reported like any other rejection, and no separate authentication error exists.
\<close>

theorem upstream_rejection_forwarded:
  assumes "credentials e = Some (k, s)"
    and "\<And>pa m. g k s pa m \<noteq> None"
    and "\<And>request. f request = Responded st (Some body)"
    and "400 \<le> st" and "st \<le> 599"
  shows "fst (GET_buy_config e g f p) =
           json_response st (JObj [(''error'', JStr ''Failed to fetch buy config''), (''details'', JStr body)])
       \<and> fst (GET_sell_config e g f p) =
           json_response st (JObj [(''error'', JStr ''Failed to fetch sell config''), (''details'', JStr body)])
       \<and> (nonEmpty country \<noteq> None \<longrightarrow>
            fst (GET_sell_options e g f p country subdivision networks) =
              json_response st (JObj [(''error'', JStr ''Failed to fetch sell options''), (''details'', JStr body)]))
       \<and> (rq_body r = Some b \<and> requiredFields b \<noteq> None \<longrightarrow>
            fst (POST_sell_quote e g f p r) =
              json_response st
                (if NODE_ENV e = Some ''development''
                 then JObj ([(''error'', JStr ''Failed to generate sell quote''),
                             (''details'', errorDetailsOf p body),
                             (''status'', JNum (of_nat st))]
                            @ (if st = 401
                               then [(''hint'', JStr ''Check your CDP API credentials in .env.local'')]
                               else []))
                 else JObj ((''error'', JStr ''Failed to generate sell quote'')
                            # (if st = 401
                               then [(''details'', JStr ''Authentication failed - check API credentials'')]
                               else []))))"
proof -
  note st = assms(4) assms(5)
  note get = upstreamGET_rejected [of g k s _ f st body, OF assms(2) assms(3) st]
  have 1: "fst (GET_buy_config e g f p) =
      json_response st (JObj [(''error'', JStr ''Failed to fetch buy config''), (''details'', JStr body)])"
    by (simp add: GET_buy_config_def assms(1) get)
  have 2: "fst (GET_sell_config e g f p) =
      json_response st (JObj [(''error'', JStr ''Failed to fetch sell config''), (''details'', JStr body)])"
    by (simp add: GET_sell_config_def assms(1) get)
  have 3: "fst (GET_sell_options e g f p country subdivision networks) =
      json_response st (JObj [(''error'', JStr ''Failed to fetch sell options''), (''details'', JStr body)])"
    if "nonEmpty country \<noteq> None"
    using that by (auto simp only: GET_sell_options_def assms(1) get Let_def option.case prod.case)
  have 4: "fst (POST_sell_quote e g f p r) = json_response st
                (if NODE_ENV e = Some ''development''
                 then JObj ([(''error'', JStr ''Failed to generate sell quote''),
                             (''details'', errorDetailsOf p body),
                             (''status'', JNum (of_nat st))]
                            @ (if st = 401
                               then [(''hint'', JStr ''Check your CDP API credentials in .env.local'')]
                               else []))
                 else JObj ((''error'', JStr ''Failed to generate sell quote'')
                            # (if st = 401
                               then [(''details'', JStr ''Authentication failed - check API credentials'')]
                               else [])))"
    if "rq_body r = Some b" and "requiredFields b \<noteq> None"
  proof -
    from that(2) have nn: "b \<noteq> JNull" using requiredFields_JNull by auto
    from that(2) obtain required where "requiredFields b = Some required" by blast
    moreover obtain tok where "g k s ''/onramp/v1/sell/quote'' ''POST'' = Some tok"
      using assms(2) by blast
    ultimately show ?thesis
      by (simp only: POST_sell_quote_body [OF assms(1) that(1) nn] option.case fst_conv
            assms(3) quoteResponse_rejected [OF st])
  qed
  from 1 2 3 4 show ?thesis by blast
qed

theorem upstream_rejection_forwarded_witness:
  "fst (GET_buy_config exampleEnv exampleJWT (respond 403 ''denied'') noParse) =
     json_response 403 (JObj [(''error'', JStr ''Failed to fetch buy config''), (''details'', JStr ''denied'')])
   \<and> fst (GET_sell_options exampleEnv exampleJWT (respond 403 ''denied'') noParse (Some ''US'') None None) =
     json_response 403 (JObj [(''error'', JStr ''Failed to fetch sell options''), (''details'', JStr ''denied'')])
   \<and> fst (POST_sell_quote exampleEnv exampleJWT (respond 401 ''denied'') noParse
            (exampleRequest (JObj exampleQuote))) =
     json_response 401
       (JObj [(''error'', JStr ''Failed to generate sell quote''),
              (''details'', JStr ''Authentication failed - check API credentials'')])
   \<and> fst (POST_sell_quote developmentEnv exampleJWT (respond 403 ''denied'') noParse
            (exampleRequest (JObj exampleQuote))) =
     json_response 403
       (JObj [(''error'', JStr ''Failed to generate sell quote''),
              (''details'', JStr ''denied''), (''status'', JNum 403)])"
proof -
  have cred: "credentials exampleEnv = Some (''key-1'', ''secret-1'')"
             "credentials developmentEnv = Some (''key-1'', ''secret-1'')"
    by (simp_all add: credentials_def developmentEnv_def exampleEnv_def jsOr_def truthy_def
          nonEmpty_def)
  have jwt: "exampleJWT ''key-1'' ''secret-1'' pa m \<noteq> None" for pa m
    by (simp add: exampleJWT_def)
  have up: "respond st ''denied'' request = Responded st (Some ''denied'')" for st request
    by (simp add: respond_def)
  have c: "nonEmpty (Some ''US'') \<noteq> None"
    by (simp add: nonEmpty_def)
  have q: "rq_body (exampleRequest (JObj exampleQuote)) = Some (JObj exampleQuote)
           \<and> requiredFields (JObj exampleQuote) \<noteq> None"
    by (simp add: exampleRequest_def requiredFields_def requiredNames_def truthyField_def
          bodyField_def exampleQuote_def)
  have env: "NODE_ENV exampleEnv \<noteq> Some ''development''"
            "NODE_ENV developmentEnv = Some ''development''"
    by (simp_all add: exampleEnv_def developmentEnv_def)
  have d: "errorDetailsOf noParse ''denied'' = JStr ''denied''"
    by (simp add: errorDetailsOf_def noParse_def)
  show ?thesis
    using upstream_rejection_forwarded
            [where g = exampleJWT and f = "respond 403 ''denied''" and p = noParse
               and country = "Some ''US''" and subdivision = None and networks = None
               and r = "exampleRequest (JObj exampleQuote)" and b = "JObj exampleQuote",
             OF cred(1) jwt up]
          upstream_rejection_forwarded
            [where g = exampleJWT and f = "respond 401 ''denied''" and p = noParse
               and country = "Some ''US''" and subdivision = None and networks = None
               and r = "exampleRequest (JObj exampleQuote)" and b = "JObj exampleQuote",
             OF cred(1) jwt up]
          upstream_rejection_forwarded
            [where g = exampleJWT and f = "respond 403 ''denied''" and p = noParse
               and country = "Some ''US''" and subdivision = None and networks = None
               and r = "exampleRequest (JObj exampleQuote)" and b = "JObj exampleQuote",
             OF cred(2) jwt up]
          c q env d
    by simp
qed

lemma quoteResponse_not_missing:
  "quoteResponse e p res \<noteq> error_response 400 ''Missing required fields''"
proof (cases res)
  case FetchRejected
  then show ?thesis by (simp add: quoteResponse_def error_response_def json_response_def)
next
  case (Responded st bd)
  show ?thesis
  proof (cases bd)
    case None
    with Responded show ?thesis
      by (simp add: quoteResponse_def error_response_def json_response_def)
  next
    case (Some body)
    show ?thesis
    proof (cases "is_ok st")
      case True
      then have "st \<noteq> 400" by (auto simp: is_ok_def)
      with True Responded Some show ?thesis
        by (simp add: quoteResponse_def error_response_def json_response_def
              split: option.splits json.splits)
    next
      case False
      with Responded Some show ?thesis
        by (simp add: quoteResponse_def quoteRejection_def error_response_def
              json_response_def obj_def List.map_filter_simps Let_def)
    qed
  qed
qed

lemma optionalField_absent: "bodyField b n = None \<Longrightarrow> optionalField b n = []"
  by (simp add: optionalField_def truthyField_def)

text \<open>
  C10, as stated, fails for a request whose body is the JSON value \<open>null\<close>: every field
  is absent from it, and the route answers 500 "Failed to generate sell quote", not 400
  "Missing required fields".
\<close>

theorem sell_quote_null_body_counterexample:
  "credentials exampleEnv \<noteq> None
   \<and> bodyField JNull ''sellCurrency'' = None
   \<and> POST_sell_quote exampleEnv exampleJWT (respond 200 ''{}'') noParse (exampleRequest JNull)
       = (\<lparr>resp_status = 500,
           resp_body = JObj [(''error'', JStr ''Failed to generate sell quote'')]\<rparr>, [])"
  by (simp add: POST_sell_quote_def credentials_def exampleEnv_def jsOr_def truthy_def
        nonEmpty_def exampleRequest_def bodyField_def error_response_def json_response_def
        obj_def List.map_filter_simps)

text \<open>
  C10, amended. With credentials configured and a request body that parses to a JSON
  value other than \<open>null\<close>, the sell-quote route answers 400 "Missing required fields",
  generating no token and dispatching no request, whenever one of \<open>sellCurrency\<close>,
  \<open>sellAmount\<close>, \<open>cashoutCurrency\<close>, \<open>paymentMethod\<close>, \<open>country\<close>, \<open>sourceAddress\<close>,
  \<open>redirectUrl\<close>, \<open>partnerUserId\<close> is absent. When the eight are present and truthy, the
  route is not rejected in this way whatever \<open>sellNetwork\<close> and \<open>subdivision\<close> are: it
  generates the token, and the body of the request it dispatches holds the eight fields,
  \<open>clientIp\<close>, then \<open>sellNetwork\<close> and \<open>subdivision\<close>, each of the two left out on its own
  when it is absent.
\<close>

theorem sell_quote_required_fields:
  assumes "credentials e = Some (k, s)"
  shows "(rq_body r = Some b \<and> b \<noteq> JNull \<and> (\<exists>n \<in> set requiredNames. bodyField b n = None) \<longrightarrow>
            POST_sell_quote e g f p r = (error_response 400 ''Missing required fields'', []))
       \<and> (rq_body r = Some b \<and> requiredFields b = Some required \<longrightarrow>
            fst (POST_sell_quote e g f p r) \<noteq> error_response 400 ''Missing required fields''
          \<and> map fst required =
               [''sellCurrency'', ''sellAmount'', ''cashoutCurrency'', ''paymentMethod'',
                ''country'', ''sourceAddress'', ''redirectUrl'', ''partnerUserId'']
          \<and> snd (POST_sell_quote e g f p r) =
               GenerateJWT k s ''/onramp/v1/sell/quote'' ''POST''
               # (case g k s ''/onramp/v1/sell/quote'' ''POST'' of
                    None \<Rightarrow> []
                  | Some tok \<Rightarrow>
                      [Fetch \<lparr>req_url = ''https://api.developer.coinbase.com/onramp/v1/sell/quote'',
                              req_method = ''POST'',
                              req_headers = [(''Content-Type'', ''application/json''),
                                             (''Accept'', ''application/json''),
                                             (''Authorization'', ''Bearer '' @ tok)],
                              req_body = Some (required @ [(''clientIp'', JStr (clientIpOf r))]
                                               @ optionalField b ''sellNetwork''
                                               @ optionalField b ''subdivision'')\<rparr>])
          \<and> (bodyField b ''sellNetwork'' = None \<longrightarrow> optionalField b ''sellNetwork'' = [])
          \<and> (bodyField b ''subdivision'' = None \<longrightarrow> optionalField b ''subdivision'' = []))"
proof (intro conjI impI)
  assume a: "rq_body r = Some b \<and> b \<noteq> JNull \<and> (\<exists>n \<in> set requiredNames. bodyField b n = None)"
  then have "requiredFields b = None" by (simp add: requiredFields_None)
  with a assms show "POST_sell_quote e g f p r = (error_response 400 ''Missing required fields'', [])"
    by (simp add: POST_sell_quote_body)
next
  assume a: "rq_body r = Some b \<and> requiredFields b = Some required"
  then have nn: "b \<noteq> JNull" using requiredFields_JNull by auto
  note body = POST_sell_quote_body [OF assms conjunct1 [OF a] nn]
  from a show "map fst required =
               [''sellCurrency'', ''sellAmount'', ''cashoutCurrency'', ''paymentMethod'',
                ''country'', ''sourceAddress'', ''redirectUrl'', ''partnerUserId'']"
    by (auto dest: requiredFields_keys simp: requiredNames_def)
  show "fst (POST_sell_quote e g f p r) \<noteq> error_response 400 ''Missing required fields''"
  proof (cases "g k s ''/onramp/v1/sell/quote'' ''POST''")
    case None
    with a show ?thesis
      by (simp add: body error_response_def json_response_def)
  next
    case (Some tok)
    with a show ?thesis
      by (simp add: body quoteResponse_not_missing)
  qed
  from a show "snd (POST_sell_quote e g f p r) =
               GenerateJWT k s ''/onramp/v1/sell/quote'' ''POST''
               # (case g k s ''/onramp/v1/sell/quote'' ''POST'' of
                    None \<Rightarrow> []
                  | Some tok \<Rightarrow>
                      [Fetch \<lparr>req_url = ''https://api.developer.coinbase.com/onramp/v1/sell/quote'',
                              req_method = ''POST'',
                              req_headers = [(''Content-Type'', ''application/json''),
                                             (''Accept'', ''application/json''),
                                             (''Authorization'', ''Bearer '' @ tok)],
                              req_body = Some (required @ [(''clientIp'', JStr (clientIpOf r))]
                                               @ optionalField b ''sellNetwork''
                                               @ optionalField b ''subdivision'')\<rparr>])"
    by (simp add: body quoteRequestBody_def split: option.splits)
next
  assume "bodyField b ''sellNetwork'' = None"
  then show "optionalField b ''sellNetwork'' = []" by (rule optionalField_absent)
next
  assume "bodyField b ''subdivision'' = None"
  then show "optionalField b ''subdivision'' = []" by (rule optionalField_absent)
qed

theorem sell_quote_required_fields_witness:
  "POST_sell_quote exampleEnv exampleJWT (respond 200 ''{}'') noParse (exampleRequest exampleQuoteNoCountry)
     = (error_response 400 ''Missing required fields'', [])
   \<and> snd (POST_sell_quote exampleEnv exampleJWT (respond 200 ''{}'') noParse
            (exampleRequest exampleQuoteWithNetwork))
     = [GenerateJWT ''key-1'' ''secret-1'' ''/onramp/v1/sell/quote'' ''POST'',
        Fetch \<lparr>req_url = ''https://api.developer.coinbase.com/onramp/v1/sell/quote'',
               req_method = ''POST'',
               req_headers = [(''Content-Type'', ''application/json''),
                              (''Accept'', ''application/json''),
                              (''Authorization'', ''Bearer token'')],
               req_body = Some (exampleQuote @ [(''clientIp'', JStr ''203.0.113.7''),
                                                (''sellNetwork'', JStr ''base'')])\<rparr>]"
proof -
  have cred: "credentials exampleEnv = Some (''key-1'', ''secret-1'')"
    by (simp add: credentials_def exampleEnv_def jsOr_def truthy_def nonEmpty_def)
  have b1: "rq_body (exampleRequest exampleQuoteNoCountry) = Some exampleQuoteNoCountry
            \<and> exampleQuoteNoCountry \<noteq> JNull
            \<and> (\<exists>n \<in> set requiredNames. bodyField exampleQuoteNoCountry n = None)"
    by (simp add: exampleRequest_def exampleQuoteNoCountry_def exampleQuote_def
          requiredNames_def bodyField_def)
  have b2: "rq_body (exampleRequest exampleQuoteWithNetwork) = Some exampleQuoteWithNetwork
            \<and> requiredFields exampleQuoteWithNetwork = Some exampleQuote"
    by (simp add: exampleRequest_def exampleQuoteWithNetwork_def exampleQuote_def
          requiredFields_def requiredNames_def truthyField_def bodyField_def)
  have opt: "optionalField exampleQuoteWithNetwork ''sellNetwork'' = [(''sellNetwork'', JStr ''base'')]"
            "bodyField exampleQuoteWithNetwork ''subdivision'' = None"
    by (simp_all add: optionalField_def truthyField_def bodyField_def
          exampleQuoteWithNetwork_def exampleQuote_def)
  have ip: "clientIpOf (exampleRequest b) = ''203.0.113.7''" for b
    by (simp add: clientIpOf_def exampleRequest_def jsOr_def truthy_def firstOfSplit_def trim_def
          isSpace_def isPrivateIp_def nonEmpty_def startsWith_def Let_def)
  have tok: "exampleJWT ''key-1'' ''secret-1'' ''/onramp/v1/sell/quote'' ''POST'' = Some ''token''"
    by (simp add: exampleJWT_def)
  show ?thesis
    using sell_quote_required_fields
            [where g = exampleJWT and f = "respond 200 ''{}''" and p = noParse
               and r = "exampleRequest exampleQuoteNoCountry" and b = exampleQuoteNoCountry,
             OF cred]
          sell_quote_required_fields
            [where g = exampleJWT and f = "respond 200 ''{}''" and p = noParse
               and r = "exampleRequest exampleQuoteWithNetwork" and b = exampleQuoteWithNetwork
               and required = exampleQuote,
             OF cred]
          b1 b2 opt
    by (simp add: ip tok)
qed

end
